theory Spec2Isabelle
  imports Complex_Main "HOL-Library.Word"
begin

section \<open>Strings of the host language\<close>

text \<open>
  A string of the source language is a sequence of 16-bit code units. An ASCII literal
  of the source is written \<open>js ''...''\<close>; code units beyond Latin-1 are written as
  numbers.
\<close>

type_synonym jsstring = "16 word list"

definition js :: "string \<Rightarrow> jsstring" where
  "js s = map of_char s"

text \<open>\<open>text.replace(/c/g, rep)\<close> for a single code unit \<open>c\<close>.\<close>

definition replaceAll :: "16 word \<Rightarrow> jsstring \<Rightarrow> jsstring \<Rightarrow> jsstring" where
  "replaceAll c rep s = concat (map (\<lambda>x. if x = c then rep else [x]) s)"

section \<open>escapeHtml\<close>

definition escapeHtml :: "jsstring \<Rightarrow> jsstring" where
  "escapeHtml text =
     replaceAll 0x27 (js ''&#39;'')
       (replaceAll 0x22 (js ''&quot;'')
         (replaceAll 0x3E (js ''&gt;'')
           (replaceAll 0x3C (js ''&lt;'')
             (replaceAll 0x26 (js ''&amp;'') text))))"

text \<open>
  The reading of the specification: one pass over the content in which each of the five
  characters is replaced by its entity and every other code unit is kept.
\<close>

definition entityOf :: "16 word \<Rightarrow> jsstring" where
  "entityOf c =
     (if c = 0x26 then js ''&amp;''
      else if c = 0x3C then js ''&lt;''
      else if c = 0x3E then js ''&gt;''
      else if c = 0x22 then js ''&quot;''
      else if c = 0x27 then js ''&#39;''
      else [c])"

definition escapeOnePass :: "jsstring \<Rightarrow> jsstring" where
  "escapeOnePass text = concat (map entityOf text)"

definition entities :: "jsstring list" where
  "entities = [js ''&amp;'', js ''&lt;'', js ''&gt;'', js ''&quot;'', js ''&#39;'']"

definition startsAt :: "jsstring \<Rightarrow> nat \<Rightarrow> jsstring \<Rightarrow> bool" where
  "startsAt s i e = (take (length e) (drop i s) = e)"


section \<open>String builtins used by the parser\<close>

text \<open>
  \<open>isWhite\<close> is the set matched by \<open>\s\<close> and stripped by \<open>trim()\<close> and by the
  numeric conversion: the WhiteSpace and LineTerminator code units of the language.
\<close>

definition isWhite :: "16 word \<Rightarrow> bool" where
  "isWhite c \<longleftrightarrow>
     c = 0x09 \<or> c = 0x0A \<or> c = 0x0B \<or> c = 0x0C \<or> c = 0x0D \<or> c = 0x20 \<or> c = 0xA0 \<or>
     c = 0x1680 \<or> (0x2000 \<le> c \<and> c \<le> 0x200A) \<or> c = 0x2028 \<or> c = 0x2029 \<or>
     c = 0x202F \<or> c = 0x205F \<or> c = 0x3000 \<or> c = 0xFEFF"

definition trim :: "jsstring \<Rightarrow> jsstring" where
  "trim s = rev (dropWhile isWhite (rev (dropWhile isWhite s)))"

text \<open>\<open>raw.replace(/\s+/g, ' ')\<close>: every maximal run of white space becomes one space.\<close>

fun collapseWhite :: "jsstring \<Rightarrow> jsstring" where
  "collapseWhite [] = []"
| "collapseWhite [x] = (if isWhite x then [0x20] else [x])"
| "collapseWhite (x # y # zs) =
     (if isWhite x then (if isWhite y then collapseWhite (y # zs) else 0x20 # collapseWhite (y # zs))
      else x # collapseWhite (y # zs))"

text \<open>\<open>s.split(c)\<close> for a one-character separator: never empty, \<open>.split(c) = []\<close>.\<close>

fun splitOn :: "16 word \<Rightarrow> jsstring \<Rightarrow> jsstring list" where
  "splitOn c [] = [[]]"
| "splitOn c (x # xs) =
     (if x = c then [] # splitOn c xs
      else (case splitOn c xs of [] \<Rightarrow> [[x]] | y # ys \<Rightarrow> (x # y) # ys))"

text \<open>
  \<open>html.split(/
+/)\<close>: a maximal run of line feeds is one separator, so no empty piece
  arises between two pieces; an empty piece arises only before a leading or after a
  trailing run.
\<close>

function splitLines :: "jsstring \<Rightarrow> jsstring list" where
  "splitLines [] = [[]]"
| "splitLines (x # xs) =
     (if x = 0x0A then [] # splitLines (dropWhile (\<lambda>c. c = 0x0A) xs)
      else (case splitLines xs of [] \<Rightarrow> [[x]] | y # ys \<Rightarrow> (x # y) # ys))"
  by pat_completeness auto
termination
  by (relation "measure length") (auto simp: less_Suc_eq_le length_dropWhile_le)

definition indexOf :: "16 word \<Rightarrow> jsstring \<Rightarrow> nat option" where
  "indexOf c s = (if c \<in> set s then Some (length (takeWhile (\<lambda>x. x \<noteq> c) s)) else None)"

text \<open>
  \<open>toLowerCase()\<close> on the letters A to Z. The full Unicode mapping differs only on code
  units outside ASCII, and no string with such a code unit lower-cases to one of the six
  property names the parser looks up (none of them contains \<open>k\<close>, the image of U+212A).
\<close>

definition lowerChar :: "16 word \<Rightarrow> 16 word" where
  "lowerChar c = (if 0x41 \<le> c \<and> c \<le> 0x5A then c + 0x20 else c)"

definition toLowerCase :: "jsstring \<Rightarrow> jsstring" where
  "toLowerCase s = map lowerChar s"

definition startsWith :: "jsstring \<Rightarrow> jsstring \<Rightarrow> bool" where
  "startsWith s p = (take (length p) s = p)"

definition endsWith :: "jsstring \<Rightarrow> jsstring \<Rightarrow> bool" where
  "endsWith s p = (length p \<le> length s \<and> drop (length s - length p) s = p)"

text \<open>\<open>s.replace(pat, rep)\<close> with a string pattern: only the first occurrence.\<close>

fun replaceFirst :: "jsstring \<Rightarrow> jsstring \<Rightarrow> jsstring \<Rightarrow> jsstring" where
  "replaceFirst pat rep [] = (if pat = [] then rep else [])"
| "replaceFirst pat rep (x # xs) =
     (if startsWith (x # xs) pat then rep @ drop (length pat) (x # xs)
      else x # replaceFirst pat rep xs)"

fun containsStr :: "jsstring \<Rightarrow> jsstring \<Rightarrow> bool" where
  "containsStr [] p = (p = [])"
| "containsStr (x # xs) p = (startsWith (x # xs) p \<or> containsStr xs p)"

definition digitChar :: "nat \<Rightarrow> 16 word" where
  "digitChar d = of_nat (48 + d)"

text \<open>Decimal digits of a natural number, as string interpolation prints an index.\<close>

fun showNat :: "nat \<Rightarrow> jsstring" where
  "showNat n = (if n < 10 then [digitChar n] else showNat (n div 10) @ [digitChar (n mod 10)])"

declare showNat.simps [simp del]


section \<open>Numbers of the host language\<close>

text \<open>
  A number of the source language is a double. The model keeps the three special values
  apart and idealises the finite ones: a finite number is a rational, arithmetic on
  finite numbers is exact (no rounding to 53 bits, no overflow to infinity), and the two
  zeros are one value. The operations below are the ones the parser uses; none of them
  tells the two zeros apart.
\<close>

datatype jsnum = NaN | PInf | NInf | Fin rat

definition js_sign :: "jsnum \<Rightarrow> int" where
  "js_sign a = (case a of NaN \<Rightarrow> 0 | PInf \<Rightarrow> 1 | NInf \<Rightarrow> - 1
                | Fin r \<Rightarrow> (if r < 0 then - 1 else if r = 0 then 0 else 1))"

text \<open>The operator \<open>*\<close>.\<close>

definition js_mul :: "jsnum \<Rightarrow> jsnum \<Rightarrow> jsnum" where
  "js_mul a b =
     (case (a, b) of
        (Fin r, Fin q) \<Rightarrow> Fin (r * q)
      | _ \<Rightarrow> (if a = NaN \<or> b = NaN \<or> js_sign a * js_sign b = 0 then NaN
              else if 0 < js_sign a * js_sign b then PInf else NInf))"

text \<open>The operator \<open>+\<close> on numbers.\<close>

definition js_add :: "jsnum \<Rightarrow> jsnum \<Rightarrow> jsnum" where
  "js_add a b =
     (case (a, b) of
        (Fin r, Fin q) \<Rightarrow> Fin (r + q)
      | _ \<Rightarrow> (if a = NaN \<or> b = NaN \<or> (a = PInf \<and> b = NInf) \<or> (a = NInf \<and> b = PInf) then NaN
              else if a = PInf \<or> b = PInf then PInf else NInf))"

text \<open>The operator \<open><\<close> on numbers: false as soon as one side is not a number.\<close>

definition js_lt :: "jsnum \<Rightarrow> jsnum \<Rightarrow> bool" where
  "js_lt a b =
     (case (a, b) of
        (Fin r, Fin q) \<Rightarrow> r < q
      | (NaN, _) \<Rightarrow> False
      | (_, NaN) \<Rightarrow> False
      | (NInf, q) \<Rightarrow> q \<noteq> NInf
      | (r, PInf) \<Rightarrow> r \<noteq> PInf
      | _ \<Rightarrow> False)"

definition Math_abs :: "jsnum \<Rightarrow> jsnum" where
  "Math_abs a = (case a of NaN \<Rightarrow> NaN | PInf \<Rightarrow> PInf | NInf \<Rightarrow> PInf | Fin r \<Rightarrow> Fin \<bar>r\<bar>)"

text \<open>\<open>Math.round\<close>: the nearest integer, a tie going up; not a number stays so.\<close>

definition Math_round :: "jsnum \<Rightarrow> jsnum" where
  "Math_round a = (case a of Fin r \<Rightarrow> Fin (of_int \<lfloor>r + 1 / 2\<rfloor>) | _ \<Rightarrow> a)"

text \<open>\<open>Math.max\<close> of two arguments: not a number as soon as one argument is.\<close>

definition Math_max :: "jsnum \<Rightarrow> jsnum \<Rightarrow> jsnum" where
  "Math_max a b = (if a = NaN \<or> b = NaN then NaN else if js_lt a b then b else a)"

text \<open>Truthiness of a number: zero and not-a-number are falsy.\<close>

definition truthy :: "jsnum \<Rightarrow> bool" where
  "truthy a \<longleftrightarrow> a \<noteq> NaN \<and> a \<noteq> Fin 0"

subsection \<open>Number to string\<close>

fun ndigits :: "nat \<Rightarrow> nat" where
  "ndigits n = (if n < 10 then 1 else Suc (ndigits (n div 10)))"

declare ndigits.simps [simp del]

text \<open>For \<open>0 < r < 1\<close>: the least \<open>j\<close> from \<open>j0\<close> on with \<open>1 \<le> r * 10 ^ j\<close>.\<close>

function scaleUp :: "rat \<Rightarrow> nat \<Rightarrow> nat" where
  "scaleUp r j = (if r \<le> 0 \<or> 1 \<le> r * 10 ^ j then j else scaleUp r (Suc j))"
  by pat_completeness auto
termination
proof (relation "measure (\<lambda>(r, j). nat \<lceil>1 / r\<rceil> - 10 ^ j)")
  show "wf (measure (\<lambda>(r :: rat, j). nat \<lceil>1 / r\<rceil> - 10 ^ j))" by simp
next
  fix r :: rat and j :: nat
  assume a: "\<not> (r \<le> 0 \<or> 1 \<le> r * 10 ^ j)"
  then have r: "0 < r" and lt: "r * 10 ^ j < 1" by auto
  from r lt have "(10::rat) ^ j < 1 / r" by (simp add: pos_less_divide_eq mult.commute)
  also have "\<dots> \<le> of_int \<lceil>1 / r\<rceil>" by simp
  finally have "(of_nat (10 ^ j) :: rat) < of_int \<lceil>1 / r\<rceil>" by simp
  then have "int (10 ^ j) < \<lceil>1 / r\<rceil>" by (metis of_int_less_iff of_int_of_nat_eq)
  then have a: "(10::nat) ^ j < nat \<lceil>1 / r\<rceil>" by linarith
  have b: "(10::nat) ^ j < 10 ^ Suc j" by simp
  have "nat \<lceil>1 / r\<rceil> - 10 ^ Suc j < nat \<lceil>1 / r\<rceil> - 10 ^ j"
    by (rule diff_less_mono2 [OF b a])
  then show "((r, Suc j), (r, j)) \<in> measure (\<lambda>(r, j). nat \<lceil>1 / r\<rceil> - 10 ^ j)"
    by (simp del: power_Suc)
qed

declare scaleUp.simps [simp del]

text \<open>The \<open>n\<close> with \<open>10 ^ (n - 1) \<le> r < 10 ^ n\<close>, for \<open>0 < r\<close>.\<close>

definition decExponent :: "rat \<Rightarrow> int" where
  "decExponent r = (if 1 \<le> r then int (ndigits (nat \<lfloor>r\<rfloor>)) else 1 - int (scaleUp r 0))"

definition pow10 :: "int \<Rightarrow> rat" where
  "pow10 e = (if 0 \<le> e then 10 ^ nat e else 1 / 10 ^ nat (- e))"

fun stripZeros :: "nat \<Rightarrow> nat" where
  "stripZeros n = (if n = 0 \<or> n mod 10 \<noteq> 0 then n else stripZeros (n div 10))"

declare stripZeros.simps [simp del]

text \<open>
  The digits \<open>s\<close> and the exponent \<open>n\<close> of the decimal form \<open>s * 10 ^ (n - k)\<close> with the
  fewest digits \<open>k\<close>, for \<open>0 < r\<close>. A double has at most 17 significant digits; the model
  rounds a rational with more to 17.
\<close>

definition decDigits :: "rat \<Rightarrow> nat \<times> int" where
  "decDigits r =
     (let n = decExponent r;
          s = nat \<lfloor>r * pow10 (17 - n) + 1 / 2\<rfloor>
      in if s = 10 ^ 17 then (1, n + 1) else (stripZeros s, n))"

definition showExp :: "int \<Rightarrow> jsstring" where
  "showExp e = (if 0 \<le> e then 0x2B # showNat (nat e) else 0x2D # showNat (nat (- e)))"

text \<open>The decimal form of a positive number, by the cases of the language's rule.\<close>

definition showPos :: "rat \<Rightarrow> jsstring" where
  "showPos r =
     (let (s, n) = decDigits r; ds = showNat s; k = int (length ds)
      in if k \<le> n \<and> n \<le> 21 then ds @ replicate (nat (n - k)) 0x30
         else if 0 < n \<and> n \<le> 21 then take (nat n) ds @ [0x2E] @ drop (nat n) ds
         else if - 6 < n \<and> n \<le> 0 then [0x30, 0x2E] @ replicate (nat (- n)) 0x30 @ ds
         else if k = 1 then ds @ [0x65] @ showExp (n - 1)
         else take 1 ds @ [0x2E] @ drop 1 ds @ [0x65] @ showExp (n - 1))"

text \<open>String interpolation of a number.\<close>

definition Number_toString :: "jsnum \<Rightarrow> jsstring" where
  "Number_toString a =
     (case a of
        NaN \<Rightarrow> js ''NaN''
      | PInf \<Rightarrow> js ''Infinity''
      | NInf \<Rightarrow> js ''-Infinity''
      | Fin r \<Rightarrow> (if r = 0 then js ''0''
                  else if r < 0 then 0x2D # showPos (- r)
                  else showPos r))"

text \<open>\<open>x.toFixed(f)\<close>: \<open>f\<close> digits after the point, a tie in the last digit going up.\<close>

definition Number_toFixed :: "jsnum \<Rightarrow> nat \<Rightarrow> jsstring" where
  "Number_toFixed a f =
     (case a of
        Fin r \<Rightarrow>
          (let sgn = (if r < 0 then [0x2D] else []);
               x = \<bar>r\<bar>
           in if 10 ^ 21 \<le> x then sgn @ Number_toString (Fin x)
              else
                (let n = nat \<lfloor>x * 10 ^ f + 1 / 2\<rfloor>;
                     m = showNat n;
                     m = (if f = 0 then m
                          else (let m = replicate (Suc f - length m) 0x30 @ m;
                                    k = length m
                                in take (k - f) m @ [0x2E] @ drop (k - f) m))
                 in sgn @ m))
      | _ \<Rightarrow> Number_toString a)"

subsection \<open>String to number\<close>

definition isDigit :: "16 word \<Rightarrow> bool" where
  "isDigit c \<longleftrightarrow> 0x30 \<le> c \<and> c \<le> 0x39"

definition digitVal :: "16 word \<Rightarrow> nat" where
  "digitVal c =
     (if 0x30 \<le> c \<and> c \<le> 0x39 then unat c - 0x30
      else if 0x61 \<le> c \<and> c \<le> 0x66 then unat c - 0x61 + 10
      else if 0x41 \<le> c \<and> c \<le> 0x46 then unat c - 0x41 + 10
      else 16)"

definition readNat :: "nat \<Rightarrow> jsstring \<Rightarrow> nat" where
  "readNat base ds = foldl (\<lambda>acc c. acc * base + digitVal c) 0 ds"

definition allDigits :: "nat \<Rightarrow> jsstring \<Rightarrow> bool" where
  "allDigits base ds \<longleftrightarrow> ds \<noteq> [] \<and> list_all (\<lambda>c. digitVal c < base) ds"

text \<open>The exponent part: nothing, or \<open>e\<close>/\<open>E\<close>, an optional sign and at least one digit.\<close>

definition readExponent :: "jsstring \<Rightarrow> int option" where
  "readExponent s =
     (case s of
        [] \<Rightarrow> Some 0
      | c # t \<Rightarrow>
          (if c = 0x65 \<or> c = 0x45 then
             (case t of
                [] \<Rightarrow> None
              | d # u \<Rightarrow>
                  (if d = 0x2B then (if allDigits 10 u then Some (int (readNat 10 u)) else None)
                   else if d = 0x2D then (if allDigits 10 u then Some (- int (readNat 10 u)) else None)
                   else (if allDigits 10 t then Some (int (readNat 10 t)) else None)))
           else None))"

text \<open>An unsigned decimal literal: digits, an optional fraction, an optional exponent.\<close>

definition readDecimal :: "jsstring \<Rightarrow> rat option" where
  "readDecimal s =
     (let ip = takeWhile isDigit s;
          r1 = dropWhile isDigit s;
          fp = (case r1 of [] \<Rightarrow> [] | c # t \<Rightarrow> if c = 0x2E then takeWhile isDigit t else []);
          r2 = (case r1 of [] \<Rightarrow> [] | c # t \<Rightarrow> if c = 0x2E then dropWhile isDigit t else r1)
      in if ip = [] \<and> fp = [] then None
         else (case readExponent r2 of
                 None \<Rightarrow> None
               | Some e \<Rightarrow> Some (of_nat (readNat 10 (ip @ fp)) * pow10 (e - int (length fp)))))"

definition readSigned :: "jsstring \<Rightarrow> jsnum" where
  "readSigned s =
     (if s = js ''Infinity'' then PInf
      else (case readDecimal s of None \<Rightarrow> NaN | Some r \<Rightarrow> Fin r))"

definition js_neg :: "jsnum \<Rightarrow> jsnum" where
  "js_neg a = (case a of NaN \<Rightarrow> NaN | PInf \<Rightarrow> NInf | NInf \<Rightarrow> PInf | Fin r \<Rightarrow> Fin (- r))"

text \<open>
  \<open>Number(s)\<close> on a string: white space is stripped; the empty string is 0; then a
  hexadecimal, octal or binary integer, or a signed decimal literal or \<open>Infinity\<close>;
  anything else is not a number.
\<close>

definition jsNumber :: "jsstring \<Rightarrow> jsnum" where
  "jsNumber raw =
     (let s = trim raw
      in if s = [] then Fin 0
         else if startsWith s (js ''0x'') \<or> startsWith s (js ''0X'') then
           (if allDigits 16 (drop 2 s) then Fin (of_nat (readNat 16 (drop 2 s))) else NaN)
         else if startsWith s (js ''0o'') \<or> startsWith s (js ''0O'') then
           (if allDigits 8 (drop 2 s) then Fin (of_nat (readNat 8 (drop 2 s))) else NaN)
         else if startsWith s (js ''0b'') \<or> startsWith s (js ''0B'') then
           (if allDigits 2 (drop 2 s) then Fin (of_nat (readNat 2 (drop 2 s))) else NaN)
         else (case s of
                 [] \<Rightarrow> Fin 0
               | c # t \<Rightarrow>
                   (if c = 0x2B then readSigned t
                    else if c = 0x2D then js_neg (readSigned t)
                    else readSigned s)))"


section \<open>CSS lengths and text direction\<close>

definition cssPxOrPercent :: "jsnum \<Rightarrow> jsstring" where
  "cssPxOrPercent val =
     (if js_lt (Math_abs val) (Fin 1) then Number_toFixed (js_mul val (Fin 100)) 4 @ js ''%''
      else Number_toString val @ js ''px'')"

definition cssFontSize :: "jsnum \<Rightarrow> jsstring" where
  "cssFontSize val =
     (if js_lt (Math_abs val) (Fin 1) then Number_toString val @ js ''em''
      else Number_toString val @ js ''px'')"

datatype TextDir = LTR | RTL | TTB

definition rtlChar :: "16 word \<Rightarrow> bool" where
  "rtlChar c \<longleftrightarrow>
     (0x0591 \<le> c \<and> c \<le> 0x07FF) \<or> (0xFB1D \<le> c \<and> c \<le> 0xFDFD) \<or> (0xFE70 \<le> c \<and> c \<le> 0xFEFC)"

definition detectDir :: "jsstring \<Rightarrow> TextDir" where
  "detectDir text = (if list_ex rtlChar text then RTL else LTR)"

section \<open>Inline style parsing\<close>

record ParsedInlineStyle =
  fontSize :: "jsnum option"
  fontFamily :: "jsstring option"
  fontWeight :: "jsnum option"
  italic :: "bool option"
  color :: "jsstring option"
  lineHeight :: "jsnum option"

text \<open>One step of the reduction over the declarations of a style attribute.\<close>

definition addDeclaration :: "(jsstring \<rightharpoonup> jsstring) \<Rightarrow> jsstring \<Rightarrow> (jsstring \<rightharpoonup> jsstring)" where
  "addDeclaration acc decl =
     (case indexOf 0x3A decl of
        None \<Rightarrow> acc
      | Some separator \<Rightarrow>
          (let key = toLowerCase (trim (take separator decl));
               val = trim (drop (separator + 1) decl)
           in if key \<noteq> [] \<and> val \<noteq> [] then acc(key \<mapsto> val) else acc))"

definition buildInlineStyleMap :: "jsstring option \<Rightarrow> (jsstring \<rightharpoonup> jsstring)" where
  "buildInlineStyleMap styleText =
     (case styleText of
        None \<Rightarrow> Map.empty
      | Some st \<Rightarrow> if st = [] then Map.empty else foldl addDeclaration Map.empty (splitOn 0x3B st))"

definition parseFontSizeValue :: "jsstring option \<Rightarrow> jsnum option" where
  "parseFontSizeValue raw =
     (case raw of
        None \<Rightarrow> None
      | Some r \<Rightarrow>
          if r = [] then None
          else if endsWith r (js ''px'') then Some (jsNumber (replaceFirst (js ''px'') [] r))
          else if endsWith r (js ''em'') then
            (let val = jsNumber (replaceFirst (js ''em'') [] r)
             in Some (if val = NaN \<or> val = Fin 0 then Fin 1 else val))
          else None)"

definition parseLineHeightValue :: "jsstring option \<Rightarrow> jsnum option" where
  "parseLineHeightValue raw =
     (case raw of
        None \<Rightarrow> None
      | Some r \<Rightarrow>
          if r = [] then None
          else if endsWith r (js ''px'') then Some (jsNumber (replaceFirst (js ''px'') [] r))
          else if endsWith r (js ''em'') then
            (let val = jsNumber (replaceFirst (js ''em'') [] r)
             in Some (if val = NaN \<or> val = Fin 0 then Fin (12 / 10) else val))
          else (let numeric = jsNumber r in if numeric = NaN then None else Some numeric))"

definition parseFontWeightValue :: "jsstring option \<Rightarrow> jsnum option" where
  "parseFontWeightValue raw =
     (case raw of
        None \<Rightarrow> None
      | Some r \<Rightarrow>
          if r = [] then None
          else if r = js ''bold'' then Some (Fin 700)
          else if r = js ''normal'' then Some (Fin 400)
          else (let numeric = jsNumber r
                in Some (if numeric = NaN \<or> numeric = Fin 0 then Fin 400 else numeric)))"

text \<open>
  \<open>/italic|oblique/i.test(raw)\<close>: without the unicode flag, case folding never maps a
  code unit outside ASCII to an ASCII one, so the test is an ASCII case-insensitive
  substring search.
\<close>

definition parseItalicValue :: "jsstring option \<Rightarrow> bool option" where
  "parseItalicValue raw =
     (case raw of
        None \<Rightarrow> None
      | Some r \<Rightarrow>
          if r = [] then None
          else Some (containsStr (toLowerCase r) (js ''italic'') \<or>
                     containsStr (toLowerCase r) (js ''oblique'')))"

text \<open>
  \<open>setInlineStyleValue\<close> and \<open>mergeInlineStyleValue\<close> on one field: the first argument is
  the field of the target, the second the value offered; the result is the field after
  the call.
\<close>

definition setInlineStyleValue :: "'a option \<Rightarrow> 'a option \<Rightarrow> 'a option" where
  "setInlineStyleValue target val = (case val of None \<Rightarrow> target | Some v \<Rightarrow> Some v)"

definition mergeInlineStyleValue :: "'a option \<Rightarrow> 'a option \<Rightarrow> 'a option" where
  "mergeInlineStyleValue target source =
     (case target of None \<Rightarrow> setInlineStyleValue target source | Some v \<Rightarrow> target)"

text \<open>An element is seen by the parser through its \<open>style\<close> attribute only.\<close>

definition parseInlineStyle :: "jsstring option \<Rightarrow> ParsedInlineStyle" where
  "parseInlineStyle styleAttr =
     (let m = buildInlineStyleMap styleAttr
      in \<lparr> fontSize = setInlineStyleValue None (parseFontSizeValue (m (js ''font-size''))),
           fontFamily = setInlineStyleValue None (m (js ''font-family'')),
           fontWeight = setInlineStyleValue None (parseFontWeightValue (m (js ''font-weight''))),
           italic = setInlineStyleValue None (parseItalicValue (m (js ''font-style''))),
           color = setInlineStyleValue None (m (js ''color'')),
           lineHeight = setInlineStyleValue None (parseLineHeightValue (m (js ''line-height''))) \<rparr>)"

definition emptyStyle :: ParsedInlineStyle where
  "emptyStyle = \<lparr> fontSize = None, fontFamily = None, fontWeight = None, italic = None,
                  color = None, lineHeight = None \<rparr>"

definition mergeInlineStyle :: "ParsedInlineStyle \<Rightarrow> ParsedInlineStyle \<Rightarrow> ParsedInlineStyle" where
  "mergeInlineStyle target source =
     \<lparr> fontSize = mergeInlineStyleValue (fontSize target) (fontSize source),
       fontFamily = mergeInlineStyleValue (fontFamily target) (fontFamily source),
       fontWeight = mergeInlineStyleValue (fontWeight target) (fontWeight source),
       italic = mergeInlineStyleValue (italic target) (italic source),
       color = mergeInlineStyleValue (color target) (color source),
       lineHeight = mergeInlineStyleValue (lineHeight target) (lineHeight source) \<rparr>"

text \<open>
  The upward walk from the parent of a text node: \<open>ancestors\<close> holds the \<open>style\<close>
  attributes of the ancestor elements, the parent first and the root element last.
\<close>

definition collectStyles :: "jsstring option list \<Rightarrow> ParsedInlineStyle" where
  "collectStyles ancestors =
     foldl (\<lambda>collected cur. mergeInlineStyle collected (parseInlineStyle cur)) emptyStyle ancestors"

record ResolvedStyle =
  sty_fontSize :: jsnum
  sty_lineHeight :: jsnum
  sty_fontWeight :: jsnum
  sty_italic :: bool
  sty_color :: jsstring
  sty_fontFamily :: jsstring

record StyleDefaults =
  def_fontSize :: jsnum
  def_lineHeight :: jsnum

definition collectAncestorInlineStyle :: "jsstring option list \<Rightarrow> StyleDefaults \<Rightarrow> ResolvedStyle" where
  "collectAncestorInlineStyle ancestors defaults =
     (let collected = collectStyles ancestors;
          fs = (case fontSize collected of None \<Rightarrow> def_fontSize defaults | Some v \<Rightarrow> v);
          lh = (case lineHeight collected of None \<Rightarrow> js_mul fs (def_lineHeight defaults) | Some v \<Rightarrow> v)
      in \<lparr> sty_fontSize = fs,
           sty_lineHeight = lh,
           sty_fontWeight = (case fontWeight collected of None \<Rightarrow> Fin 400 | Some v \<Rightarrow> v),
           sty_italic = (case italic collected of None \<Rightarrow> False | Some b \<Rightarrow> b),
           sty_color = (case color collected of None \<Rightarrow> js ''#000''
                        | Some c \<Rightarrow> if c = [] then js ''#000'' else c),
           sty_fontFamily = (case fontFamily collected of None \<Rightarrow> [] | Some f \<Rightarrow> f) \<rparr>)"

section \<open>Text metrics\<close>

record TextMetrics =
  m_width :: jsnum
  m_height :: jsnum
  m_ascent :: jsnum
  m_descent :: jsnum

definition estimateTextMetrics :: "jsstring \<Rightarrow> jsnum \<Rightarrow> jsnum \<Rightarrow> TextMetrics" where
  "estimateTextMetrics content fs lh =
     \<lparr> m_width = Math_max (Fin 1)
                   (Math_round (js_mul (js_mul (Fin (of_nat (length content))) fs) (Fin (6 / 10)))),
       m_height = Math_max (Fin 1) (Math_round lh),
       m_ascent = Math_round (js_mul fs (Fin (8 / 10))),
       m_descent = Math_round (js_mul fs (Fin (2 / 10))) \<rparr>"


section \<open>The intermediate model\<close>

text \<open>
  The text, page and document classes come from another package; the model takes them
  as plain records holding the values the constructors are given.
\<close>

record IntermediateText =
  t_id :: jsstring
  t_content :: jsstring
  t_fontSize :: jsnum
  t_fontFamily :: jsstring
  t_fontWeight :: jsnum
  t_italic :: bool
  t_color :: jsstring
  t_width :: jsnum
  t_height :: jsnum
  t_lineHeight :: jsnum
  t_x :: jsnum
  t_y :: jsnum
  t_ascent :: jsnum
  t_descent :: jsnum
  t_vertical :: bool
  t_dir :: TextDir
  t_rotate :: jsnum
  t_skew :: jsnum
  t_isEOL :: bool

text \<open>\<open>p_thumbnail\<close> is what \<open>getThumbnail(0.3)\<close> resolves to.\<close>

record IntermediatePage =
  p_id :: jsstring
  p_number :: nat
  p_width :: jsnum
  p_height :: jsnum
  p_texts :: "IntermediateText list"
  p_thumbnail :: "jsstring option"

record IntermediateDocument =
  doc_id :: jsstring
  doc_title :: jsstring
  doc_pages :: "IntermediatePage list"

section \<open>The structural importer\<close>

text \<open>
  A node of the parsed document: an element with its tag name, its \<open>style\<close> attribute
  and its children, a text node with its data, or a node of another kind (a comment).
\<close>

datatype node =
  ElementNode jsstring "jsstring option" "node list"
| TextNode jsstring
| OtherNode

text \<open>
  What \<open>parseFromString\<close> returns, as far as the importer reads it: the title, the
  \<open>style\<close> attribute of the root element (the only ancestor of the body) and the body.
\<close>

record HtmlDom =
  dom_title :: jsstring
  dom_rootStyle :: "jsstring option"
  dom_body :: node

text \<open>The variables \<open>texts\<close>, \<open>idx\<close> and \<open>y\<close> that the traversal updates.\<close>

record WalkState =
  w_texts :: "IntermediateText list"
  w_idx :: nat
  w_y :: jsnum

definition initialState :: WalkState where
  "initialState = \<lparr> w_texts = [], w_idx = 0, w_y = Fin 0 \<rparr>"

definition textId :: "jsstring \<Rightarrow> nat \<Rightarrow> jsstring" where
  "textId docId n = docId @ js ''-page-1-text-'' @ showNat n"

definition defaultStyle :: StyleDefaults where
  "defaultStyle = \<lparr> def_fontSize = Fin 16, def_lineHeight = Fin (12 / 10) \<rparr>"

text \<open>The body of \<open>walk\<close> on a text node with non-empty content.\<close>

definition emitText :: "jsstring \<Rightarrow> jsstring option list \<Rightarrow> jsstring \<Rightarrow> WalkState \<Rightarrow> WalkState" where
  "emitText docId ancestors content st =
     (let sty = collectAncestorInlineStyle ancestors defaultStyle;
          m = estimateTextMetrics content (sty_fontSize sty) (sty_lineHeight sty);
          text = \<lparr> t_id = textId docId (w_idx st),
                   t_content = content,
                   t_fontSize = sty_fontSize sty,
                   t_fontFamily = sty_fontFamily sty,
                   t_fontWeight = sty_fontWeight sty,
                   t_italic = sty_italic sty,
                   t_color = sty_color sty,
                   t_width = m_width m,
                   t_height = m_height m,
                   t_lineHeight = sty_lineHeight sty,
                   t_x = Fin 0,
                   t_y = w_y st,
                   t_ascent = m_ascent m,
                   t_descent = m_descent m,
                   t_vertical = False,
                   t_dir = detectDir content,
                   t_rotate = Fin 0,
                   t_skew = Fin 0,
                   t_isEOL = True \<rparr>
      in \<lparr> w_texts = w_texts st @ [text],
           w_idx = Suc (w_idx st),
           w_y = js_add (w_y st) (m_height m) \<rparr>)"

text \<open>
  The traversal. \<open>ancestors\<close> holds the \<open>style\<close> attributes of the elements above the
  node, the parent first: what the upward walk from a text node will read.
\<close>

fun walk :: "jsstring \<Rightarrow> jsstring option list \<Rightarrow> node \<Rightarrow> WalkState \<Rightarrow> WalkState"
  and walkChildren :: "jsstring \<Rightarrow> jsstring option list \<Rightarrow> node list \<Rightarrow> WalkState \<Rightarrow> WalkState"
  where
  "walk docId ancestors (ElementNode tagName styleAttr childNodes) st =
     (if tagName = js ''SCRIPT'' \<or> tagName = js ''STYLE'' then st
      else walkChildren docId (styleAttr # ancestors) childNodes st)"
| "walk docId ancestors (TextNode raw) st =
     (let content = trim (collapseWhite raw)
      in if content = [] then st else emitText docId ancestors content st)"
| "walk docId ancestors OtherNode st = st"
| "walkChildren docId ancestors [] st = st"
| "walkChildren docId ancestors (child # rest) st =
     walkChildren docId ancestors rest (walk docId ancestors child st)"

definition pageHeightOf :: "IntermediateText list \<Rightarrow> jsnum" where
  "pageHeightOf texts =
     Math_max (Fin 1)
       (Math_round (foldl (\<lambda>a t. Math_max a (js_add (t_y t) (t_height t))) (Fin 0) texts))"

record ImportResult =
  r_title :: jsstring
  r_texts :: "IntermediateText list"
  r_pageHeight :: jsnum

text \<open>
  \<open>parser\<close> is the host's structural parser; \<open>None\<close> stands for an exception thrown while
  parsing, which the function lets through to its caller.
\<close>

definition collectTextsFromHtml :: "(jsstring \<Rightarrow> HtmlDom option) \<Rightarrow> jsstring \<Rightarrow> jsstring \<Rightarrow> ImportResult option" where
  "collectTextsFromHtml parser html docId =
     (case parser html of
        None \<Rightarrow> None
      | Some doc \<Rightarrow>
          (let title = (if dom_title doc = [] then js ''Untitled HTML'' else dom_title doc);
               st = walk docId [dom_rootStyle doc] (dom_body doc) initialState
           in Some \<lparr> r_title = title, r_texts = w_texts st,
                     r_pageHeight = pageHeightOf (w_texts st) \<rparr>))"

section \<open>The plain-text fallback\<close>

definition fallbackFontSize :: jsnum where
  "fallbackFontSize = Fin 16"

definition fallbackLineHeight :: jsnum where
  "fallbackLineHeight = Math_round (js_mul fallbackFontSize (Fin (12 / 10)))"

text \<open>One turn of the loop over the lines.\<close>

definition fallbackLine :: "jsstring \<Rightarrow> WalkState \<Rightarrow> jsstring \<Rightarrow> WalkState" where
  "fallbackLine docId st line =
     (let content = trim line
      in if content = [] then st\<lparr> w_y := js_add (w_y st) fallbackLineHeight \<rparr>
         else
           (let m = estimateTextMetrics content fallbackFontSize fallbackLineHeight;
                text = \<lparr> t_id = textId docId (w_idx st),
                         t_content = content,
                         t_fontSize = fallbackFontSize,
                         t_fontFamily = [],
                         t_fontWeight = Fin 400,
                         t_italic = False,
                         t_color = js ''#000'',
                         t_width = m_width m,
                         t_height = m_height m,
                         t_lineHeight = fallbackLineHeight,
                         t_x = Fin 0,
                         t_y = w_y st,
                         t_ascent = m_ascent m,
                         t_descent = m_descent m,
                         t_vertical = False,
                         t_dir = LTR,
                         t_rotate = Fin 0,
                         t_skew = Fin 0,
                         t_isEOL = True \<rparr>
            in \<lparr> w_texts = w_texts st @ [text],
                 w_idx = Suc (w_idx st),
                 w_y = js_add (w_y st) (m_height m) \<rparr>))"

definition fallbackPlainText :: "jsstring \<Rightarrow> jsstring \<Rightarrow> IntermediateText list \<times> jsnum" where
  "fallbackPlainText html docId =
     (let st = foldl (fallbackLine docId) initialState (splitLines html)
      in (w_texts st, pageHeightOf (w_texts st)))"

section \<open>encode\<close>

text \<open>
  What the host provides: the inherited \<open>toArrayBuffer\<close> (\<open>None\<close> when it rejects), the
  UTF-8 text decoder (\<open>None\<close> when it throws), the structural parser (\<open>None\<close> when the
  host has none), and the clock.
\<close>

record 'i Host =
  toArrayBuffer :: "'i \<Rightarrow> 8 word list option"
  textDecode :: "8 word list \<Rightarrow> jsstring option"
  domParser :: "(jsstring \<Rightarrow> HtmlDom option) option"
  dateNow :: nat

definition decodeBufferToString :: "'i Host \<Rightarrow> 8 word list \<Rightarrow> jsstring option" where
  "decodeBufferToString host buffer = textDecode host buffer"

definition encode :: "'i Host \<Rightarrow> 'i \<Rightarrow> IntermediateDocument option" where
  "encode host fileOrBuffer =
     (case toArrayBuffer host fileOrBuffer of
        None \<Rightarrow> None
      | Some buffer \<Rightarrow>
          (case decodeBufferToString host buffer of
             None \<Rightarrow> None
           | Some html \<Rightarrow>
               (let docId = js ''html-'' @ showNat (dateNow host);
                    pageWidth = Fin 800;
                    parsed =
                      (case domParser host of
                         None \<Rightarrow> (js ''Untitled HTML'', [], Fin 0)
                       | Some parser \<Rightarrow>
                           (case collectTextsFromHtml parser html docId of
                              None \<Rightarrow> (js ''Untitled HTML'', [], Fin 0)
                            | Some res \<Rightarrow>
                                (if r_title res = [] then js ''Untitled HTML'' else r_title res,
                                 r_texts res, r_pageHeight res)));
                    title = fst parsed;
                    layout = (if fst (snd parsed) = [] then fallbackPlainText html docId
                              else snd parsed);
                    page = \<lparr> p_id = docId @ js ''-page-1'',
                             p_number = 1,
                             p_width = pageWidth,
                             p_height = snd layout,
                             p_texts = fst layout,
                             p_thumbnail = None \<rparr>
                in Some \<lparr> doc_id = docId, doc_title = title, doc_pages = [page] \<rparr>)))"


section \<open>The exporter\<close>

text \<open>The double quote that delimits an attribute in the produced markup.\<close>

definition dq :: jsstring where
  "dq = [0x22]"

text \<open>\<open>s.replace(/\n\s+/g, ' ')\<close>: a line feed with the white space after it becomes a space.\<close>

function joinIndentedLines :: "jsstring \<Rightarrow> jsstring" where
  "joinIndentedLines [] = []"
| "joinIndentedLines (x # xs) =
     (if x = 0x0A \<and> xs \<noteq> [] \<and> isWhite (hd xs)
      then 0x20 # joinIndentedLines (dropWhile isWhite xs)
      else x # joinIndentedLines xs)"
  by pat_completeness auto
termination
  by (relation "measure length") (auto simp: less_Suc_eq_le length_dropWhile_le)

definition getFragmentStyle :: jsstring where
  "getFragmentStyle =
     joinIndentedLines
       ([0x0A] @ js ''      .hamster-note-document { position: relative; display: block; contain: layout style size; }''
        @ [0x0A] @ js ''      .hamster-note-document .hamster-note-page { position: relative; overflow: hidden; background-repeat: no-repeat; background-position: top center; background-size: contain; }''
        @ [0x0A] @ js ''      .hamster-note-document .hamster-note-text { position: absolute; white-space: pre; transform-origin: 0 0; }''
        @ [0x0A] @ js ''    '')"

definition joinWith :: "jsstring \<Rightarrow> jsstring list \<Rightarrow> jsstring" where
  "joinWith sep parts = (case parts of [] \<Rightarrow> [] | p # ps \<Rightarrow> p @ concat (map (\<lambda>q. sep @ q) ps))"

text \<open>The opening tag of the span up to and including the quote that opens the id.\<close>

definition spanOpen :: jsstring where
  "spanOpen = js ''<span class='' @ dq @ js ''hamster-note-text'' @ dq @ js '' id='' @ dq"

definition renderTextSpan :: "IntermediateText \<Rightarrow> jsstring" where
  "renderTextSpan t =
     (let left = cssPxOrPercent (t_x t);
          top = cssPxOrPercent (t_y t);
          fs = cssFontSize (t_fontSize t);
          lh = cssFontSize (t_lineHeight t);
          width = cssPxOrPercent (t_width t);
          height = cssPxOrPercent (t_height t);
          dir = (if t_dir t = RTL then js ''rtl'' else js ''ltr'');
          writingMode = (if t_vertical t \<or> t_dir t = TTB then js ''vertical-rl''
                         else js ''horizontal-tb'');
          color = (if t_color t \<noteq> [] \<and> t_color t \<noteq> js ''transparent''
                   then js ''color:'' @ t_color t @ js '';'' else []);
          family = (if t_fontFamily t \<noteq> [] then js ''font-family:'' @ t_fontFamily t @ js '';''
                    else []);
          weight = js ''font-weight:''
                   @ Number_toString (if truthy (t_fontWeight t) then t_fontWeight t else Fin 400)
                   @ js '';'';
          fontStyle = (if t_italic t then js ''font-style:italic;'' else js ''font-style:normal;'');
          transformParts =
            (if truthy (t_rotate t) then [js ''rotate('' @ Number_toString (t_rotate t) @ js ''deg)'']
             else [])
            @ (if truthy (t_skew t) then [js ''skewX('' @ Number_toString (t_skew t) @ js ''deg)'']
               else []);
          transform = (if transformParts \<noteq> []
                       then js ''transform:'' @ joinWith (js '' '') transformParts @ js '';''
                       else [])
      in spanOpen @ t_id t @ dq @ js '' style='' @ dq
         @ js ''left:'' @ left @ js '';top:'' @ top @ js '';width:'' @ width
         @ js '';height:'' @ height @ js '';font-size:'' @ fs @ js '';line-height:'' @ lh
         @ js '';'' @ weight @ fontStyle @ family @ color
         @ js ''direction:'' @ dir @ js '';writing-mode:'' @ writingMode @ js '';'' @ transform
         @ dq @ js ''>'' @ escapeHtml (t_content t) @ js ''</span>'')"

definition lazyRenderPageDiv :: "IntermediatePage \<Rightarrow> jsstring" where
  "lazyRenderPageDiv p =
     (let texts = concat (map renderTextSpan (p_texts p));
          bg = (case p_thumbnail p of
                  None \<Rightarrow> []
                | Some thumb \<Rightarrow>
                    if thumb = [] then []
                    else js ''background-image:url('' @ [0x27] @ thumb @ [0x27] @ js '');'')
      in js ''<div class='' @ dq @ js ''hamster-note-page'' @ dq @ js '' id='' @ dq @ p_id p @ dq
         @ js '' style='' @ dq @ js ''width:'' @ cssPxOrPercent (p_width p)
         @ js '';height:'' @ cssPxOrPercent (p_height p) @ js '';'' @ bg @ dq @ js ''>''
         @ texts @ js ''</div>'')"

definition decodeToHtml :: "IntermediateDocument \<Rightarrow> jsstring" where
  "decodeToHtml intermediateDocument =
     (let pages = doc_pages intermediateDocument;
          style = getFragmentStyle;
          pageHtml = map lazyRenderPageDiv pages
      in js ''<div class='' @ dq @ js ''hamster-note-document'' @ dq @ js ''><style>'' @ style
         @ js ''</style>'' @ concat pageHtml @ js ''</div>'')"

text \<open>
  The result of \<open>decode\<close>: a file with its name and content, or the bytes of the content
  when the host cannot construct a file.
\<close>

datatype DecodeResult = FileResult jsstring jsstring | BufferResult "8 word list"

definition fullHtml :: "IntermediateDocument \<Rightarrow> jsstring" where
  "fullHtml intermediateDocument =
     (let inner = decodeToHtml intermediateDocument;
          title = (if doc_title intermediateDocument = [] then js ''document''
                   else doc_title intermediateDocument)
      in js ''<!DOCTYPE html><html lang='' @ dq @ js ''en'' @ dq @ js ''><head><meta charset='' @ dq
         @ js ''utf-8'' @ dq @ js ''/><meta name='' @ dq @ js ''viewport'' @ dq @ js '' content='' @ dq
         @ js ''width=device-width, initial-scale=1'' @ dq @ js ''/><title>'' @ escapeHtml title
         @ js ''</title></head><body>'' @ inner @ js ''</body></html>'')"

text \<open>
  \<open>hasFile\<close> tells whether the host can construct a file; \<open>textEncode\<close> is its UTF-8
  encoder.
\<close>

definition decode :: "bool \<Rightarrow> (jsstring \<Rightarrow> 8 word list) \<Rightarrow> IntermediateDocument \<Rightarrow> DecodeResult" where
  "decode hasFile textEncode intermediateDocument =
     (let title = (if doc_title intermediateDocument = [] then js ''document''
                   else doc_title intermediateDocument)
      in if hasFile then FileResult (title @ js ''.html'') (fullHtml intermediateDocument)
         else BufferResult (textEncode (fullHtml intermediateDocument)))"

section \<open>A UTF-8 decoder for hosts\<close>

text \<open>
  The decoding of a host's UTF-8 text decoder in its default mode. A leading byte order
  mark is dropped. A lead byte fixes the number of bytes of the sequence and the range of
  the second byte (so that no overlong form, no surrogate and nothing beyond U+10FFFF
  is decoded); bytes that start a sequence and do not complete it become one U+FFFD and
  the byte that broke the sequence is read again; a code point beyond U+FFFF becomes a
  surrogate pair.
\<close>

definition isCont :: "8 word \<Rightarrow> bool" where
  "isCont b \<longleftrightarrow> 0x80 \<le> b \<and> b \<le> 0xBF"

definition secondLo :: "8 word \<Rightarrow> 8 word" where
  "secondLo a = (if a = 0xE0 then 0xA0 else if a = 0xF0 then 0x90 else 0x80)"

definition secondHi :: "8 word \<Rightarrow> 8 word" where
  "secondHi a = (if a = 0xED then 0x9F else if a = 0xF4 then 0x8F else 0xBF)"

fun utf8Units :: "8 word list \<Rightarrow> jsstring" where
  "utf8Units [] = []"
| "utf8Units (a # rest) =
     (if a < 0x80 then of_nat (unat a) # utf8Units rest
      else if 0xC2 \<le> a \<and> a \<le> 0xDF then
        (case rest of
           [] \<Rightarrow> [0xFFFD]
         | b # r1 \<Rightarrow>
             if isCont b then of_nat ((unat a - 0xC0) * 64 + (unat b - 0x80)) # utf8Units r1
             else 0xFFFD # utf8Units rest)
      else if 0xE0 \<le> a \<and> a \<le> 0xEF then
        (case rest of
           [] \<Rightarrow> [0xFFFD]
         | b # r1 \<Rightarrow>
             if secondLo a \<le> b \<and> b \<le> secondHi a then
               (case r1 of
                  [] \<Rightarrow> [0xFFFD]
                | c # r2 \<Rightarrow>
                    if isCont c
                    then of_nat ((unat a - 0xE0) * 4096 + (unat b - 0x80) * 64 + (unat c - 0x80))
                         # utf8Units r2
                    else 0xFFFD # utf8Units r1)
             else 0xFFFD # utf8Units rest)
      else if 0xF0 \<le> a \<and> a \<le> 0xF4 then
        (case rest of
           [] \<Rightarrow> [0xFFFD]
         | b # r1 \<Rightarrow>
             if secondLo a \<le> b \<and> b \<le> secondHi a then
               (case r1 of
                  [] \<Rightarrow> [0xFFFD]
                | c # r2 \<Rightarrow>
                    if isCont c then
                      (case r2 of
                         [] \<Rightarrow> [0xFFFD]
                       | d # r3 \<Rightarrow>
                           if isCont d then
                             (let cp = (unat a - 0xF0) * 262144 + (unat b - 0x80) * 4096
                                       + (unat c - 0x80) * 64 + (unat d - 0x80)
                              in of_nat (0xD800 + (cp - 0x10000) div 1024)
                                 # of_nat (0xDC00 + (cp - 0x10000) mod 1024) # utf8Units r3)
                           else 0xFFFD # utf8Units r2)
                    else 0xFFFD # utf8Units r1)
             else 0xFFFD # utf8Units rest)
      else 0xFFFD # utf8Units rest)"

definition utf8Decode :: "8 word list \<Rightarrow> jsstring" where
  "utf8Decode bytes =
     utf8Units (if take 3 bytes = [0xEF, 0xBB, 0xBF] then drop 3 bytes else bytes)"

text \<open>A host without a structural parser, as the test environment of the repository.\<close>

definition nodeHost :: "nat \<Rightarrow> (8 word list) Host" where
  "nodeHost now =
     \<lparr> toArrayBuffer = Some, textDecode = (\<lambda>buffer. Some (utf8Decode buffer)),
       domParser = None, dateNow = now \<rparr>"

section \<open>Sample data\<close>

text \<open>A run and a page whose id, colour, font family and thumbnail contain a double quote.\<close>

definition exampleRun :: IntermediateText where
  "exampleRun =
     \<lparr> t_id = js ''a'' @ dq @ js ''b'', t_content = js ''x'', t_fontSize = Fin 16,
       t_fontFamily = js ''A'' @ dq, t_fontWeight = Fin 400, t_italic = False,
       t_color = js ''red'' @ dq, t_width = Fin 10, t_height = Fin 19, t_lineHeight = Fin 19,
       t_x = Fin 0, t_y = Fin 0, t_ascent = Fin 13, t_descent = Fin 3, t_vertical = False,
       t_dir = LTR, t_rotate = Fin 0, t_skew = Fin 0, t_isEOL = True \<rparr>"

definition examplePage :: IntermediatePage where
  "examplePage =
     \<lparr> p_id = js ''p'' @ dq, p_number = 1, p_width = Fin 800, p_height = Fin 19,
       p_texts = [exampleRun], p_thumbnail = Some (js ''u'' @ dq) \<rparr>"



text \<open>The input of the fallback example, and the same two lines around a line of one space.\<close>

definition lineOneTwo :: jsstring where
  "lineOneTwo = js ''Line one'' @ [0x0A, 0x0A] @ js ''Line two''"

definition lineOneBlankTwo :: jsstring where
  "lineOneBlankTwo = js ''Line one'' @ [0x0A, 0x20, 0x0A] @ js ''Line two''"

text \<open>The same two lines around a blank line, with carriage return and line feed as line ends.\<close>

definition lineOneCrLfTwo :: jsstring where
  "lineOneCrLfTwo = js ''Line one'' @ [0x0D, 0x0A, 0x0D, 0x0A] @ js ''Line two''"

text \<open>
  The three elements of the end-to-end scenario: as one line, and as the three indented
  lines the repository's test passes to \<open>encode\<close>; each with its UTF-8 encoding.
\<close>

definition markupH1 :: jsstring where
  "markupH1 = js ''<h1>'' @ [0x6807, 0x9898] @ js ''</h1>''"

definition markupP1 :: jsstring where
  "markupP1 = js ''<p>'' @ [0x7B2C, 0x4E00, 0x6BB5] @ js ''</p>''"

definition markupP2 :: jsstring where
  "markupP2 = js ''<p>'' @ [0x7B2C, 0x4E8C, 0x6BB5] @ js ''</p>''"

definition markupOneLine :: jsstring where
  "markupOneLine = markupH1 @ markupP1 @ markupP2"

definition markupLines :: jsstring where
  "markupLines = markupH1 @ [0x0A] @ js ''    '' @ markupP1 @ [0x0A] @ js ''    '' @ markupP2"

definition markupOneLineUtf8 :: "8 word list" where
  "markupOneLineUtf8 =
     [0x3C, 0x68, 0x31, 0x3E, 0xE6, 0xA0, 0x87, 0xE9, 0xA2, 0x98, 0x3C, 0x2F, 0x68, 0x31, 0x3E,
      0x3C, 0x70, 0x3E, 0xE7, 0xAC, 0xAC, 0xE4, 0xB8, 0x80, 0xE6, 0xAE, 0xB5, 0x3C, 0x2F, 0x70, 0x3E,
      0x3C, 0x70, 0x3E, 0xE7, 0xAC, 0xAC, 0xE4, 0xBA, 0x8C, 0xE6, 0xAE, 0xB5, 0x3C, 0x2F, 0x70, 0x3E]"

definition markupLinesUtf8 :: "8 word list" where
  "markupLinesUtf8 =
     [0x3C, 0x68, 0x31, 0x3E, 0xE6, 0xA0, 0x87, 0xE9, 0xA2, 0x98, 0x3C, 0x2F, 0x68, 0x31, 0x3E,
      0x0A, 0x20, 0x20, 0x20, 0x20,
      0x3C, 0x70, 0x3E, 0xE7, 0xAC, 0xAC, 0xE4, 0xB8, 0x80, 0xE6, 0xAE, 0xB5, 0x3C, 0x2F, 0x70, 0x3E,
      0x0A, 0x20, 0x20, 0x20, 0x20,
      0x3C, 0x70, 0x3E, 0xE7, 0xAC, 0xAC, 0xE4, 0xBA, 0x8C, 0xE6, 0xAE, 0xB5, 0x3C, 0x2F, 0x70, 0x3E]"

section \<open>The importer as the specification words it\<close>

text \<open>
  The surviving text nodes of a subtree in depth-first order, the subtrees of script and
  style elements skipped, whatever the case of their tag name: each with its content,
  white space collapsed and trimmed, and with the \<open>style\<close> attributes of its ancestors,
  the parent first. A text node whose content is empty after that does not survive.
\<close>

definition scriptOrStyle :: "jsstring \<Rightarrow> bool" where
  "scriptOrStyle tagName \<longleftrightarrow>
     toLowerCase tagName = js ''script'' \<or> toLowerCase tagName = js ''style''"

fun survivingTexts :: "jsstring option list \<Rightarrow> node \<Rightarrow> (jsstring \<times> jsstring option list) list"
  and survivingTextsOf :: "jsstring option list \<Rightarrow> node list \<Rightarrow> (jsstring \<times> jsstring option list) list"
  where
  "survivingTexts ancestors (ElementNode tagName styleAttr childNodes) =
     (if scriptOrStyle tagName then []
      else survivingTextsOf (styleAttr # ancestors) childNodes)"
| "survivingTexts ancestors (TextNode raw) =
     (if trim (collapseWhite raw) = [] then [] else [(trim (collapseWhite raw), ancestors)])"
| "survivingTexts ancestors OtherNode = []"
| "survivingTextsOf ancestors [] = []"
| "survivingTextsOf ancestors (child # rest) =
     survivingTexts ancestors child @ survivingTextsOf ancestors rest"

text \<open>
  A subtree in which every script or style element that is reached has its tag name in
  upper case, as the elements of the HTML namespace have.
\<close>

fun upperSkipTags :: "node \<Rightarrow> bool"
  and upperSkipTagsAll :: "node list \<Rightarrow> bool"
  where
  "upperSkipTags (ElementNode tagName styleAttr childNodes) =
     (if scriptOrStyle tagName then tagName = js ''SCRIPT'' \<or> tagName = js ''STYLE''
      else upperSkipTagsAll childNodes)"
| "upperSkipTags (TextNode raw) = True"
| "upperSkipTags OtherNode = True"
| "upperSkipTagsAll [] = True"
| "upperSkipTagsAll (child # rest) = (upperSkipTags child \<and> upperSkipTagsAll rest)"

text \<open>The estimated height of a surviving text node.\<close>

definition estimatedHeight :: "jsstring \<times> jsstring option list \<Rightarrow> jsnum" where
  "estimatedHeight nd =
     (let sty = collectAncestorInlineStyle (snd nd) defaultStyle
      in m_height (estimateTextMetrics (fst nd) (sty_fontSize sty) (sty_lineHeight sty)))"

text \<open>The sum of a list of numbers, from 0, left to right.\<close>

definition sumFromZero :: "jsnum list \<Rightarrow> jsnum" where
  "sumFromZero hs = foldl js_add (Fin 0) hs"

text \<open>Emitting one run for each of a list of surviving text nodes, in order.\<close>

definition emitAll :: "jsstring \<Rightarrow> WalkState \<Rightarrow> (jsstring \<times> jsstring option list) list \<Rightarrow> WalkState" where
  "emitAll docId st nodes = foldl (\<lambda>s nd. emitText docId (snd nd) (fst nd) s) st nodes"

text \<open>
  The layout of the runs collected so far: the index is their number, the offset is the
  sum of their heights, and the run at position \<open>n\<close> has the \<open>n\<close>-th id, x = 0, the sum
  of the heights before it as y, and the fixed orientation, transform and end-of-line
  flag.
\<close>

definition stacked :: "jsstring \<Rightarrow> WalkState \<Rightarrow> bool" where
  "stacked docId st \<longleftrightarrow>
     w_idx st = length (w_texts st)
     \<and> w_y st = sumFromZero (map t_height (w_texts st))
     \<and> (\<forall>n < length (w_texts st).
           t_id (w_texts st ! n) = textId docId n
           \<and> t_x (w_texts st ! n) = Fin 0
           \<and> t_y (w_texts st ! n) = sumFromZero (map t_height (take n (w_texts st)))
           \<and> \<not> t_vertical (w_texts st ! n)
           \<and> t_rotate (w_texts st ! n) = Fin 0
           \<and> t_skew (w_texts st ! n) = Fin 0
           \<and> t_isEOL (w_texts st ! n))"

text \<open>A parser that returns a given document, and a document to run the importer on.\<close>

definition constParser :: "HtmlDom \<Rightarrow> jsstring \<Rightarrow> HtmlDom option" where
  "constParser document html = Some document"

definition exampleDom :: HtmlDom where
  "exampleDom =
     \<lparr> dom_title = [],
       dom_rootStyle = None,
       dom_body =
         ElementNode (js ''BODY'') None
           [ElementNode (js ''P'') (Some (js ''font-size: 20px''))
              [TextNode ([0x0A] @ js ''  Hello   world '')],
            ElementNode (js ''SCRIPT'') None [TextNode (js ''var x = 1'')],
            TextNode (js ''   ''),
            OtherNode,
            ElementNode (js ''DIV'') None [ElementNode (js ''B'') None [TextNode (js ''Bye'')]]] \<rparr>"

text \<open>The document of \<open><p style="font-size: abcpx">x</p>\<close>.\<close>

definition malformedDom :: HtmlDom where
  "malformedDom =
     \<lparr> dom_title = [],
       dom_rootStyle = None,
       dom_body =
         ElementNode (js ''BODY'') None
           [ElementNode (js ''P'') (Some (js ''font-size: abcpx'')) [TextNode (js ''x'')]] \<rparr>"

text \<open>
  The document of \<open><svg><style>.a{fill:red}</style></svg><p>Hi</p>\<close>: the style element
  is in the SVG namespace, so its tag name is in lower case.
\<close>

definition svgStyleDom :: HtmlDom where
  "svgStyleDom =
     \<lparr> dom_title = [],
       dom_rootStyle = None,
       dom_body =
         ElementNode (js ''BODY'') None
           [ElementNode (js ''svg'') None
              [ElementNode (js ''style'') None [TextNode (js ''.a{fill:red}'')]],
            ElementNode (js ''P'') None [TextNode (js ''Hi'')]] \<rparr>"

text \<open>A number that is at least 1: a finite one from 1 on, or positive infinity.\<close>

definition atLeastOne :: "jsnum \<Rightarrow> bool" where
  "atLeastOne a = (case a of Fin r \<Rightarrow> 1 \<le> r | PInf \<Rightarrow> True | NInf \<Rightarrow> False | NaN \<Rightarrow> False)"


section \<open>Properties of escapeHtml\<close>

lemma replaceAll_Nil: "replaceAll c rep [] = []"
  by (simp add: replaceAll_def)

lemma replaceAll_append: "replaceAll c rep (xs @ ys) = replaceAll c rep xs @ replaceAll c rep ys"
  by (simp add: replaceAll_def)

lemma replaceAll_Cons: "replaceAll c rep (x # xs) = (if x = c then rep else [x]) @ replaceAll c rep xs"
  by (simp add: replaceAll_def)

lemma escapeHtml_Nil: "escapeHtml [] = []"
  by (simp add: escapeHtml_def replaceAll_Nil)

lemma escapeHtml_Cons: "escapeHtml (x # xs) = entityOf x @ escapeHtml xs"
  by (simp add: escapeHtml_def entityOf_def js_def replaceAll_Cons replaceAll_append replaceAll_Nil)

lemma escapeHtml_one_pass: "escapeHtml str = escapeOnePass str"
  by (induction str) (simp_all add: escapeHtml_Nil escapeHtml_Cons escapeOnePass_def)

lemma entityOf_no_markup: "set (entityOf c) \<inter> {0x3C, 0x3E, 0x22, 0x27} = {}"
  by (simp add: entityOf_def js_def)

lemma escapeHtml_no_markup: "set (escapeHtml str) \<inter> {0x3C, 0x3E, 0x22, 0x27} = {}"
proof (induction str)
  case Nil
  show ?case by (simp add: escapeHtml_Nil)
next
  case (Cons x xs)
  have "set (escapeHtml (x # xs)) = set (entityOf x) \<union> set (escapeHtml xs)"
    by (simp add: escapeHtml_Cons)
  with Cons entityOf_no_markup [of x] show ?case by blast
qed

lemma entityOf_amp_head:
  assumes "i < length (entityOf c)" and "entityOf c ! i = 0x26"
  shows "i = 0 \<and> entityOf c \<in> set entities"
proof -
  have spec: "c = 0x26 \<or> c = 0x3C \<or> c = 0x3E \<or> c = 0x22 \<or> c = 0x27 \<or> entityOf c = [c]"
    by (simp add: entityOf_def)
  have pos: "\<And>j. j < 6 \<Longrightarrow> j = 0 \<or> j = 1 \<or> j = 2 \<or> j = 3 \<or> j = 4 \<or> j = (5::nat)"
    by arith
  from spec assms show ?thesis
    by (auto simp: entityOf_def entities_def js_def nth_Cons' split: if_splits dest!: pos)
qed

lemma escapeHtml_amp_starts_entity:
  "i < length (escapeHtml str) \<Longrightarrow> escapeHtml str ! i = 0x26 \<Longrightarrow>
     \<exists>e \<in> set entities. startsAt (escapeHtml str) i e"
proof (induction str arbitrary: i)
  case Nil
  then show ?case by (simp add: escapeHtml_Nil)
next
  case (Cons x xs)
  let ?h = "entityOf x"
  have out: "escapeHtml (x # xs) = ?h @ escapeHtml xs" by (rule escapeHtml_Cons)
  show ?case
  proof (cases "i < length ?h")
    case True
    with Cons.prems out have "?h ! i = 0x26" by (simp add: nth_append)
    with True have "i = 0" and mem: "?h \<in> set entities"
      using entityOf_amp_head [of i x] by simp_all
    then have "startsAt (escapeHtml (x # xs)) i ?h"
      by (simp add: startsAt_def out)
    with mem show ?thesis by blast
  next
    case False
    define j where "j = i - length ?h"
    from False Cons.prems out have j: "j < length (escapeHtml xs)" "escapeHtml xs ! j = 0x26"
      by (simp_all add: j_def nth_append)
    from Cons.IH [OF j] obtain e where e: "e \<in> set entities" "startsAt (escapeHtml xs) j e"
      by blast
    from False have "drop i (escapeHtml (x # xs)) = drop j (escapeHtml xs)"
      by (simp add: out j_def)
    with e show ?thesis by (auto simp: startsAt_def)
  qed
qed


lemma renderTextSpan_content:
  "\<exists>pre. renderTextSpan t = pre @ js ''>'' @ escapeHtml (t_content t) @ js ''</span>''"
  unfolding renderTextSpan_def Let_def
  apply (simp only: append_assoc [symmetric])
  apply (simp only: append_same_eq)
  apply (rule exI, rule refl)
  done

text \<open>
  C8. In the span rendered for a run, the content is embedded escaped. Escaping by the
  five successive replacements equals the single pass that replaces each of the
  characters \<open>&\<close>, \<open><\<close>, \<open>>\<close>, the double and the single quote by its entity and keeps
  every other code unit, so no entity is escaped twice. The escaped content contains no
  \<open><\<close>, \<open>>\<close>, double or single quote at all, and every \<open>&\<close> in it is the first character
  of one of the five entities.
\<close>

theorem escapeHtml_escapes_content:
  "escapeHtml content = escapeOnePass content
   \<and> set (escapeHtml content) \<inter> {0x3C, 0x3E, 0x22, 0x27} = {}
   \<and> (\<forall>i < length (escapeHtml content).
          escapeHtml content ! i = 0x26 \<longrightarrow> (\<exists>e \<in> set entities. startsAt (escapeHtml content) i e))
   \<and> (\<exists>pre. renderTextSpan t = pre @ js ''>'' @ escapeHtml (t_content t) @ js ''</span>'')"
proof (intro conjI allI impI)
  show "escapeHtml content = escapeOnePass content" by (rule escapeHtml_one_pass)
  show "set (escapeHtml content) \<inter> {0x3C, 0x3E, 0x22, 0x27} = {}" by (rule escapeHtml_no_markup)
  show "\<exists>pre. renderTextSpan t = pre @ js ''>'' @ escapeHtml (t_content t) @ js ''</span>''"
    by (rule renderTextSpan_content)
next
  fix i
  assume "i < length (escapeHtml content)" and "escapeHtml content ! i = 0x26"
  then show "\<exists>e \<in> set entities. startsAt (escapeHtml content) i e"
    by (rule escapeHtml_amp_starts_entity)
qed

theorem escapeHtml_escapes_content_witness:
  "escapeHtml (js ''<&'') = js ''&lt;&amp;''
   \<and> 4 < length (escapeHtml (js ''<&''))
   \<and> escapeHtml (js ''<&'') ! 4 = 0x26
   \<and> (\<exists>e \<in> set entities. startsAt (escapeHtml (js ''<&'')) 4 e)"
proof -
  have v: "escapeHtml (js ''<&'') = js ''&lt;&amp;''"
    by (simp add: escapeHtml_def replaceAll_def js_def)
  have l: "4 < length (escapeHtml (js ''<&''))"
    by (simp add: v) (simp add: js_def)
  have a: "escapeHtml (js ''<&'') ! 4 = 0x26"
    by (simp add: v) (simp add: js_def)
  have t: "\<forall>i < length (escapeHtml (js ''<&'')).
          escapeHtml (js ''<&'') ! i = 0x26 \<longrightarrow> (\<exists>e \<in> set entities. startsAt (escapeHtml (js ''<&'')) i e)"
    by (rule escapeHtml_escapes_content [of "js ''<&''", THEN conjunct2, THEN conjunct2, THEN conjunct1])
  from t l a have "\<exists>e \<in> set entities. startsAt (escapeHtml (js ''<&'')) 4 e"
    by (elim allE [where x = 4] impE) assumption+
  with v l a show ?thesis by (intro conjI)
qed


section \<open>Properties of the exporter\<close>

lemma occurs_here: "\<exists>pre post. x1 @ x2 @ x3 @ b = pre @ x1 @ x2 @ x3 @ post"
  by (rule exI [of _ "[]"]) simp

lemma occurs_skip:
  "\<exists>pre post. s = pre @ x1 @ x2 @ x3 @ post \<Longrightarrow> \<exists>pre post. a @ s = pre @ x1 @ x2 @ x3 @ post"
proof -
  assume "\<exists>pre post. s = pre @ x1 @ x2 @ x3 @ post"
  then obtain pre post where "s = pre @ x1 @ x2 @ x3 @ post" by blast
  then have "a @ s = (a @ pre) @ x1 @ x2 @ x3 @ post" by simp
  then show ?thesis by blast
qed

lemma render_id: "\<exists>post. renderTextSpan t = spanOpen @ t_id t @ dq @ post"
  unfolding renderTextSpan_def Let_def
  by (rule exI, rule refl)

lemma render_color:
  assumes "t_color t \<noteq> []" and "t_color t \<noteq> js ''transparent''"
  shows "\<exists>pre post. renderTextSpan t = pre @ js ''color:'' @ t_color t @ js '';'' @ post"
  unfolding renderTextSpan_def Let_def
  apply (simp only: assms simp_thms if_True append_assoc)
  apply (rule occurs_here | rule occurs_skip)+
  done

lemma render_family:
  assumes "t_fontFamily t \<noteq> []"
  shows "\<exists>pre post. renderTextSpan t = pre @ js ''font-family:'' @ t_fontFamily t @ js '';'' @ post"
  unfolding renderTextSpan_def Let_def
  apply (simp only: assms simp_thms if_True append_assoc)
  apply (rule occurs_here | rule occurs_skip)+
  done

lemma page_id: "\<exists>pre post. lazyRenderPageDiv p = pre @ js '' id='' @ dq @ p_id p @ dq @ post"
  unfolding lazyRenderPageDiv_def Let_def
  apply (rule exI [of _ "js ''<div class='' @ dq @ js ''hamster-note-page'' @ dq"])
  apply (simp only: append_assoc)
  apply (rule exI, rule refl)
  done

lemma page_thumb:
  assumes "p_thumbnail p = Some thumb" and "thumb \<noteq> []"
  shows "\<exists>pre post. lazyRenderPageDiv p =
           pre @ js ''background-image:url('' @ [0x27] @ thumb @ [0x27] @ post"
  unfolding lazyRenderPageDiv_def Let_def
  apply (simp only: assms option.case simp_thms if_False append_assoc)
  apply (rule exI [of _ "js ''<div class='' @ dq @ js ''hamster-note-page'' @ dq @ js '' id='' @ dq
         @ p_id p @ dq @ js '' style='' @ dq @ js ''width:'' @ cssPxOrPercent (p_width p)
         @ js '';height:'' @ cssPxOrPercent (p_height p) @ js '';''"])
  apply (simp only: append_assoc)
  apply (rule exI, rule refl)
  done

lemma fullHtml_title:
  "\<exists>pre post. fullHtml d =
     pre @ js ''/><title>''
     @ escapeHtml (if doc_title d = [] then js ''document'' else doc_title d)
     @ js ''</title></head><body>'' @ post"
  unfolding fullHtml_def Let_def
  apply (rule occurs_here | rule occurs_skip)+
  done

text \<open>
  C10. Only the content of a run is escaped. The span of a run starts with the fixed
  opening, the id as it is and the closing quote of the attribute; a colour that is
  neither empty nor \<open>transparent\<close> and a non-empty font family stand as they are in the
  style attribute. The block of a page holds its id as it is between the quotes of the
  attribute, and a non-empty thumbnail URL as it is between the single quotes of
  \<open>url(...)\<close>. So a double quote in one of these fields reaches the markup unescaped.
  In the full document the title is embedded escaped.
\<close>

theorem exporter_fields_verbatim:
  "(\<exists>post. renderTextSpan t = spanOpen @ t_id t @ dq @ post)
   \<and> (t_color t \<noteq> [] \<and> t_color t \<noteq> js ''transparent'' \<longrightarrow>
        (\<exists>pre post. renderTextSpan t = pre @ js ''color:'' @ t_color t @ js '';'' @ post))
   \<and> (t_fontFamily t \<noteq> [] \<longrightarrow>
        (\<exists>pre post. renderTextSpan t = pre @ js ''font-family:'' @ t_fontFamily t @ js '';'' @ post))
   \<and> (\<exists>pre post. lazyRenderPageDiv p = pre @ js '' id='' @ dq @ p_id p @ dq @ post)
   \<and> (p_thumbnail p = Some thumb \<and> thumb \<noteq> [] \<longrightarrow>
        (\<exists>pre post. lazyRenderPageDiv p =
           pre @ js ''background-image:url('' @ [0x27] @ thumb @ [0x27] @ post))
   \<and> (\<exists>pre post. fullHtml d =
          pre @ js ''/><title>''
          @ escapeHtml (if doc_title d = [] then js ''document'' else doc_title d)
          @ js ''</title></head><body>'' @ post)"
proof (intro conjI impI)
  show "\<exists>pre post. fullHtml d =
          pre @ js ''/><title>''
          @ escapeHtml (if doc_title d = [] then js ''document'' else doc_title d)
          @ js ''</title></head><body>'' @ post"
    by (rule fullHtml_title)
  show "\<exists>post. renderTextSpan t = spanOpen @ t_id t @ dq @ post" by (rule render_id)
  show "\<exists>pre post. lazyRenderPageDiv p = pre @ js '' id='' @ dq @ p_id p @ dq @ post"
    by (rule page_id)
next
  assume "t_color t \<noteq> [] \<and> t_color t \<noteq> js ''transparent''"
  then show "\<exists>pre post. renderTextSpan t = pre @ js ''color:'' @ t_color t @ js '';'' @ post"
    by (intro render_color) simp_all
next
  assume "t_fontFamily t \<noteq> []"
  then show "\<exists>pre post. renderTextSpan t = pre @ js ''font-family:'' @ t_fontFamily t @ js '';'' @ post"
    by (rule render_family)
next
  assume "p_thumbnail p = Some thumb \<and> thumb \<noteq> []"
  then show "\<exists>pre post. lazyRenderPageDiv p =
           pre @ js ''background-image:url('' @ [0x27] @ thumb @ [0x27] @ post"
    by (intro page_thumb) simp_all
qed

theorem exporter_fields_verbatim_witness:
  "(\<exists>post. renderTextSpan exampleRun = spanOpen @ (js ''a'' @ dq @ js ''b'') @ dq @ post)
   \<and> (\<exists>pre post. renderTextSpan exampleRun = pre @ js ''color:'' @ (js ''red'' @ dq) @ js '';'' @ post)
   \<and> (\<exists>pre post. renderTextSpan exampleRun = pre @ js ''font-family:'' @ (js ''A'' @ dq) @ js '';'' @ post)
   \<and> (\<exists>pre post. lazyRenderPageDiv examplePage = pre @ js '' id='' @ dq @ (js ''p'' @ dq) @ dq @ post)
   \<and> (\<exists>pre post. lazyRenderPageDiv examplePage =
           pre @ js ''background-image:url('' @ [0x27] @ (js ''u'' @ dq) @ [0x27] @ post)"
proof -
  have c: "t_color exampleRun = js ''red'' @ dq" and f: "t_fontFamily exampleRun = js ''A'' @ dq"
    and i: "t_id exampleRun = js ''a'' @ dq @ js ''b''"
    by (simp_all add: exampleRun_def)
  have h1: "t_color exampleRun \<noteq> [] \<and> t_color exampleRun \<noteq> js ''transparent''"
    by (simp add: c js_def dq_def)
  have h2: "t_fontFamily exampleRun \<noteq> []"
    by (simp add: f js_def dq_def)
  have pi: "p_id examplePage = js ''p'' @ dq" and pt: "p_thumbnail examplePage = Some (js ''u'' @ dq)"
    by (simp_all add: examplePage_def)
  have h3: "p_thumbnail examplePage = Some (js ''u'' @ dq) \<and> js ''u'' @ dq \<noteq> []"
    by (simp add: pt js_def)
  note th = exporter_fields_verbatim [of exampleRun examplePage "js ''u'' @ dq"]
  note c1 = th [THEN conjunct1]
  note c2 = th [THEN conjunct2, THEN conjunct1, THEN mp, OF h1]
  note c3 = th [THEN conjunct2, THEN conjunct2, THEN conjunct1, THEN mp, OF h2]
  note c4 = th [THEN conjunct2, THEN conjunct2, THEN conjunct2, THEN conjunct1]
  note c5 = th [THEN conjunct2, THEN conjunct2, THEN conjunct2, THEN conjunct2, THEN conjunct1,
                THEN mp, OF h3]
  from c1 c2 c3 c4 c5 show ?thesis
    unfolding c f i pi by (intro conjI)
qed

section \<open>Properties of the number formats\<close>

lemma floor_rat_numeral: "\<lfloor>numeral a / numeral b :: rat\<rfloor> = numeral a div numeral b"
  using floor_divide_of_int_eq [of "numeral a" "numeral b", where ?'a = rat] by simp

lemma replicate_numeral: "replicate (numeral k) x = x # replicate (pred_numeral k) x"
  by (simp add: numeral_eq_Suc)

lemmas toString_eval = Let_def Number_toString_def showPos_def decDigits_def decExponent_def
  pow10_def ndigits.simps stripZeros.simps showNat.simps scaleUp.simps js_def digitChar_def
  floor_rat_numeral showExp_def replicate_numeral

lemma toFixed_50: "Number_toFixed (Fin 50) 4 = js ''50.0000''"
  apply (simp add: Number_toFixed_def floor_rat_numeral Let_def)
  apply (simp add: showNat.simps digitChar_def)
  apply (simp add: js_def)
  done

lemma css_cases:
  "cssPxOrPercent (Fin r) =
     (if \<bar>r\<bar> < 1 then Number_toFixed (Fin (r * 100)) 4 @ js ''%''
      else Number_toString (Fin r) @ js ''px'')"
  "cssPxOrPercent NaN = js ''NaNpx''"
  "cssPxOrPercent PInf = js ''Infinitypx''"
  "cssPxOrPercent NInf = js ''-Infinitypx''"
  "cssFontSize (Fin r) =
     (if \<bar>r\<bar> < 1 then Number_toString (Fin r) @ js ''em''
      else Number_toString (Fin r) @ js ''px'')"
  "cssFontSize NaN = js ''NaNpx''"
  "cssFontSize PInf = js ''Infinitypx''"
  "cssFontSize NInf = js ''-Infinitypx''"
  by (simp_all add: cssPxOrPercent_def cssFontSize_def js_lt_def Math_abs_def js_mul_def
        Number_toString_def js_def)

lemma css_examples:
  "cssPxOrPercent (Fin (1 / 2)) = js ''50.0000%''"
  "cssPxOrPercent (Fin 12) = js ''12px''"
  "cssFontSize (Fin (1 / 2)) = js ''0.5em''"
  "cssFontSize (Fin 20) = js ''20px''"
proof -
  show "cssPxOrPercent (Fin (1 / 2)) = js ''50.0000%''"
    by (simp add: css_cases toFixed_50) (simp add: js_def)
  show "cssPxOrPercent (Fin 12) = js ''12px''"
    by (simp add: css_cases) (simp add: toString_eval)
  show "cssFontSize (Fin (1 / 2)) = js ''0.5em''"
    by (simp add: css_cases) (simp add: toString_eval)
  show "cssFontSize (Fin 20) = js ''20px''"
    by (simp add: css_cases) (simp add: toString_eval)
qed

lemma render_lengths:
  "\<exists>post. renderTextSpan t =
      spanOpen @ t_id t @ dq @ js '' style='' @ dq
      @ js ''left:'' @ cssPxOrPercent (t_x t) @ js '';top:'' @ cssPxOrPercent (t_y t)
      @ js '';width:'' @ cssPxOrPercent (t_width t) @ js '';height:'' @ cssPxOrPercent (t_height t)
      @ js '';font-size:'' @ cssFontSize (t_fontSize t)
      @ js '';line-height:'' @ cssFontSize (t_lineHeight t) @ js '';'' @ post"
  unfolding renderTextSpan_def Let_def
  apply (simp only: append_assoc)
  apply (rule exI, rule refl)
  done

text \<open>
  C7. A position or size \<open>v\<close> is rendered as \<open>(v * 100).toFixed(4)\<close> followed by \<open>%\<close> when
  \<open>|v| < 1\<close> and as \<open>v\<close> followed by \<open>px\<close> otherwise (also when \<open>v\<close> is infinite or not a
  number); a font size or line height is rendered as \<open>v\<close> followed by \<open>em\<close> when \<open>|v| < 1\<close>
  and by \<open>px\<close> otherwise. So 0.5 as a position gives \<open>50.0000%\<close>, 12 gives \<open>12px\<close>, a font
  size 0.5 gives \<open>0.5em\<close> and 20 gives \<open>20px\<close>. The span of a run uses the first rule for
  left, top, width and height and the second for font-size and line-height.
\<close>

theorem css_unit_selection:
  "cssPxOrPercent (Fin r) =
     (if \<bar>r\<bar> < 1 then Number_toFixed (Fin (r * 100)) 4 @ js ''%''
      else Number_toString (Fin r) @ js ''px'')
   \<and> cssPxOrPercent NaN = js ''NaNpx''
   \<and> cssPxOrPercent PInf = js ''Infinitypx''
   \<and> cssPxOrPercent NInf = js ''-Infinitypx''
   \<and> cssFontSize (Fin r) =
     (if \<bar>r\<bar> < 1 then Number_toString (Fin r) @ js ''em''
      else Number_toString (Fin r) @ js ''px'')
   \<and> cssFontSize NaN = js ''NaNpx''
   \<and> cssFontSize PInf = js ''Infinitypx''
   \<and> cssFontSize NInf = js ''-Infinitypx''
   \<and> cssPxOrPercent (Fin (1 / 2)) = js ''50.0000%''
   \<and> cssPxOrPercent (Fin 12) = js ''12px''
   \<and> cssFontSize (Fin (1 / 2)) = js ''0.5em''
   \<and> cssFontSize (Fin 20) = js ''20px''
   \<and> (\<exists>post. renderTextSpan t =
         spanOpen @ t_id t @ dq @ js '' style='' @ dq
         @ js ''left:'' @ cssPxOrPercent (t_x t) @ js '';top:'' @ cssPxOrPercent (t_y t)
         @ js '';width:'' @ cssPxOrPercent (t_width t) @ js '';height:'' @ cssPxOrPercent (t_height t)
         @ js '';font-size:'' @ cssFontSize (t_fontSize t)
         @ js '';line-height:'' @ cssFontSize (t_lineHeight t) @ js '';'' @ post)"
  by (intro conjI css_cases css_examples render_lengths)

section \<open>Properties of the text metrics\<close>

lemma Math_round_Fin: "Math_round (Fin r) = Fin (of_int (round r))"
  by (simp add: Math_round_def round_def)

lemma Math_max_Fin: "Math_max (Fin a) (Fin b) = Fin (max a b)"
  by (simp add: Math_max_def js_lt_def max_def)

lemma max_one_of_int: "max (1::rat) (of_int k) = of_int (max 1 k)"
  by (simp add: max_def)

lemma metrics_finite:
  "estimateTextMetrics content (Fin f) (Fin l) =
     \<lparr> m_width = Fin (of_int (max 1 (round (of_nat (length content) * f * (6 / 10))))),
       m_height = Fin (of_int (max 1 (round l))),
       m_ascent = Fin (of_int (round (f * (8 / 10)))),
       m_descent = Fin (of_int (round (f * (2 / 10)))) \<rparr>"
  unfolding estimateTextMetrics_def
  by (simp add: Math_round_Fin Math_max_Fin max_one_of_int js_mul_def)

text \<open>
  C5. The estimator is a function of the content, the font size and the line height
  alone. For all three it returns
  \<open>width = Math.max(1, Math.round(length * fontSize * 0.6))\<close>,
  \<open>height = Math.max(1, Math.round(lineHeight))\<close>, \<open>ascent = Math.round(fontSize * 0.8)\<close>
  and \<open>descent = Math.round(fontSize * 0.2)\<close>; on finite numbers these are the
  mathematical maximum and the rounding to the nearest integer, a tie going up.
\<close>

theorem estimateTextMetrics_formula:
  "estimateTextMetrics content fs lh =
     \<lparr> m_width = Math_max (Fin 1)
                   (Math_round (js_mul (js_mul (Fin (of_nat (length content))) fs) (Fin (6 / 10)))),
       m_height = Math_max (Fin 1) (Math_round lh),
       m_ascent = Math_round (js_mul fs (Fin (8 / 10))),
       m_descent = Math_round (js_mul fs (Fin (2 / 10))) \<rparr>
   \<and> estimateTextMetrics content (Fin f) (Fin l) =
     \<lparr> m_width = Fin (of_int (max 1 (round (of_nat (length content) * f * (6 / 10))))),
       m_height = Fin (of_int (max 1 (round l))),
       m_ascent = Fin (of_int (round (f * (8 / 10)))),
       m_descent = Fin (of_int (round (f * (2 / 10)))) \<rparr>"
  by (intro conjI metrics_finite) (simp add: estimateTextMetrics_def)


section \<open>Properties of the style resolver\<close>
























section \<open>Properties of the fallback\<close>

lemma fallback_lineOneTwo:
  "splitLines lineOneTwo = [js ''Line one'', js ''Line two'']"
  "map t_content (fst (fallbackPlainText lineOneTwo docId)) = [js ''Line one'', js ''Line two'']"
  "map t_y (fst (fallbackPlainText lineOneTwo docId)) = [Fin 0, Fin 19]"
  "map t_height (fst (fallbackPlainText lineOneTwo docId)) = [Fin 19, Fin 19]"
  by code_simp+

lemma fallback_lineOneBlankTwo:
  "splitLines lineOneBlankTwo = [js ''Line one'', js '' '', js ''Line two'']"
  "map t_content (fst (fallbackPlainText lineOneBlankTwo docId)) = [js ''Line one'', js ''Line two'']"
  "map t_y (fst (fallbackPlainText lineOneBlankTwo docId)) = [Fin 0, Fin 38]"
  by code_simp+

lemma fallbackLineHeight_19: "fallbackLineHeight = Fin 19"
  by code_simp

lemma fallback_lineOneCrLfTwo:
  "splitLines lineOneCrLfTwo = [js ''Line one'' @ [0x0D], [0x0D], js ''Line two'']"
  "map t_content (fst (fallbackPlainText lineOneCrLfTwo docId)) = [js ''Line one'', js ''Line two'']"
  "map t_y (fst (fallbackPlainText lineOneCrLfTwo docId)) = [Fin 0, Fin 38]"
  by code_simp+

lemma fallback_leading_newline:
  "splitLines (0x0A # js ''Line two'') = [[], js ''Line two'']"
  "map t_y (fst (fallbackPlainText (0x0A # js ''Line two'') docId)) = [Fin 19]"
  by code_simp+

text \<open>
  C1, at \<open>Line one\n\nLine two\<close>. The fallback gives the two runs \<open>Line one\<close> and
  \<open>Line two\<close>, but the second is at y = 19, the height of the first, and not at 38:
  the split on runs of line feeds makes one separator of the two line feeds, so the
  blank line never reaches the branch that adds a line height for it. That branch is
  there and adds 19 for every other blank line: a line of one space between the two
  runs, a blank line whose line ends are carriage return and line feed, and the empty
  piece before a leading line feed.
\<close>

theorem fallback_blank_line_swallowed:
  "fallbackLineHeight = Fin 19
   \<and> splitLines lineOneTwo = [js ''Line one'', js ''Line two'']
   \<and> map t_content (fst (fallbackPlainText lineOneTwo docId)) = [js ''Line one'', js ''Line two'']
   \<and> map t_height (fst (fallbackPlainText lineOneTwo docId)) = [Fin 19, Fin 19]
   \<and> map t_y (fst (fallbackPlainText lineOneTwo docId)) = [Fin 0, Fin 19]
   \<and> map t_y (fst (fallbackPlainText lineOneTwo docId)) \<noteq> [Fin 0, Fin 38]
   \<and> map t_content (fst (fallbackPlainText lineOneBlankTwo docId)) = [js ''Line one'', js ''Line two'']
   \<and> map t_y (fst (fallbackPlainText lineOneBlankTwo docId)) = [Fin 0, Fin 38]
   \<and> map t_content (fst (fallbackPlainText lineOneCrLfTwo docId)) = [js ''Line one'', js ''Line two'']
   \<and> map t_y (fst (fallbackPlainText lineOneCrLfTwo docId)) = [Fin 0, Fin 38]
   \<and> map t_y (fst (fallbackPlainText (0x0A # js ''Line two'') docId)) = [Fin 19]"
  by (simp add: fallback_lineOneTwo fallback_lineOneBlankTwo fallback_lineOneCrLfTwo
        fallback_leading_newline fallbackLineHeight_19)

section \<open>Properties of encode\<close>

lemma fallback_markupLines:
  "map t_content (fst (fallbackPlainText markupLines docId)) = [markupH1, markupP1, markupP2]"
  by code_simp

lemma fallback_markupOneLine:
  "map t_content (fst (fallbackPlainText markupOneLine docId)) = [markupOneLine]"
  by code_simp

lemma encode_without_parser:
  assumes "domParser host = None"
    and "toArrayBuffer host input = Some buffer"
    and "textDecode host buffer = Some html"
  shows "\<exists>doc page. encode host input = Some doc
           \<and> doc_title doc = js ''Untitled HTML''
           \<and> doc_pages doc = [page]
           \<and> p_texts page = fst (fallbackPlainText html (js ''html-'' @ showNat (dateNow host)))"
  by (simp add: encode_def decodeBufferToString_def assms Let_def)

lemma utf8_markupLines: "utf8Decode markupLinesUtf8 = markupLines"
  by (simp add: utf8Decode_def markupLinesUtf8_def markupLines_def markupH1_def markupP1_def
        markupP2_def isCont_def secondLo_def secondHi_def js_def)

lemma utf8_markupOneLine: "utf8Decode markupOneLineUtf8 = markupOneLine"
  by (simp add: utf8Decode_def markupOneLineUtf8_def markupOneLine_def markupH1_def markupP1_def
        markupP2_def isCont_def secondLo_def secondHi_def js_def)

text \<open>
  C9, as the code has it. On a host without a structural parser, \<open>encode\<close> applied to
  bytes that decode to the three elements on three lines (the input of the repository's
  test) gives a document titled \<open>Untitled HTML\<close> with one page of three runs, the three
  lines of markup, trimmed, in order. Applied to bytes that decode to the three elements
  on one line, it gives one page with a single run holding the whole markup.
\<close>

theorem encode_markup_without_parser:
  "domParser host = None \<and> toArrayBuffer host input = Some buffer \<longrightarrow>
     (textDecode host buffer = Some markupLines \<longrightarrow>
        (\<exists>doc page. encode host input = Some doc
           \<and> doc_title doc = js ''Untitled HTML''
           \<and> doc_pages doc = [page]
           \<and> map t_content (p_texts page) = [markupH1, markupP1, markupP2]))
     \<and> (textDecode host buffer = Some markupOneLine \<longrightarrow>
        (\<exists>doc page. encode host input = Some doc
           \<and> doc_title doc = js ''Untitled HTML''
           \<and> doc_pages doc = [page]
           \<and> map t_content (p_texts page) = [markupOneLine]))"
proof (intro impI conjI)
  assume h: "domParser host = None \<and> toArrayBuffer host input = Some buffer"
    and d: "textDecode host buffer = Some markupLines"
  from encode_without_parser [of host input buffer markupLines] h d
  show "\<exists>doc page. encode host input = Some doc
           \<and> doc_title doc = js ''Untitled HTML''
           \<and> doc_pages doc = [page]
           \<and> map t_content (p_texts page) = [markupH1, markupP1, markupP2]"
    by (auto simp: fallback_markupLines)
next
  assume h: "domParser host = None \<and> toArrayBuffer host input = Some buffer"
    and d: "textDecode host buffer = Some markupOneLine"
  from encode_without_parser [of host input buffer markupOneLine] h d
  show "\<exists>doc page. encode host input = Some doc
           \<and> doc_title doc = js ''Untitled HTML''
           \<and> doc_pages doc = [page]
           \<and> map t_content (p_texts page) = [markupOneLine]"
    by (auto simp: fallback_markupOneLine)
qed

theorem encode_markup_without_parser_witness:
  "domParser (nodeHost 0) = None
   \<and> toArrayBuffer (nodeHost 0) markupLinesUtf8 = Some markupLinesUtf8
   \<and> textDecode (nodeHost 0) markupLinesUtf8 = Some markupLines
   \<and> (\<exists>doc page. encode (nodeHost 0) markupLinesUtf8 = Some doc
           \<and> doc_title doc = js ''Untitled HTML''
           \<and> doc_pages doc = [page]
           \<and> map t_content (p_texts page) = [markupH1, markupP1, markupP2])
   \<and> toArrayBuffer (nodeHost 0) markupOneLineUtf8 = Some markupOneLineUtf8
   \<and> textDecode (nodeHost 0) markupOneLineUtf8 = Some markupOneLine
   \<and> (\<exists>doc page. encode (nodeHost 0) markupOneLineUtf8 = Some doc
           \<and> doc_title doc = js ''Untitled HTML''
           \<and> doc_pages doc = [page]
           \<and> map t_content (p_texts page) = [markupOneLine])"
proof -
  have p: "domParser (nodeHost 0) = None"
    by (simp add: nodeHost_def)
  have a: "toArrayBuffer (nodeHost 0) markupLinesUtf8 = Some markupLinesUtf8"
    by (simp add: nodeHost_def)
  have b: "textDecode (nodeHost 0) markupLinesUtf8 = Some markupLines"
    by (simp add: nodeHost_def utf8_markupLines)
  have a': "toArrayBuffer (nodeHost 0) markupOneLineUtf8 = Some markupOneLineUtf8"
    by (simp add: nodeHost_def)
  have b': "textDecode (nodeHost 0) markupOneLineUtf8 = Some markupOneLine"
    by (simp add: nodeHost_def utf8_markupOneLine)
  from encode_markup_without_parser [of "nodeHost 0" markupLinesUtf8 markupLinesUtf8] p a b
  have c: "\<exists>doc page. encode (nodeHost 0) markupLinesUtf8 = Some doc
           \<and> doc_title doc = js ''Untitled HTML''
           \<and> doc_pages doc = [page]
           \<and> map t_content (p_texts page) = [markupH1, markupP1, markupP2]"
    by blast
  from encode_markup_without_parser [of "nodeHost 0" markupOneLineUtf8 markupOneLineUtf8] p a' b'
  have c': "\<exists>doc page. encode (nodeHost 0) markupOneLineUtf8 = Some doc
           \<and> doc_title doc = js ''Untitled HTML''
           \<and> doc_pages doc = [page]
           \<and> map t_content (p_texts page) = [markupOneLine]"
    by blast
  from p a b c a' b' c' show ?thesis by (intro conjI)
qed

text \<open>
  The claim as stated fails: the bytes of the three elements on one line give one run,
  not three.
\<close>

theorem encode_markup_one_line_counterexample:
  "map_option (map (map t_content \<circ> p_texts) \<circ> doc_pages) (encode (nodeHost 0) markupOneLineUtf8)
     = Some [[markupOneLine]]
   \<and> [markupOneLine] \<noteq> [markupH1, markupP1, markupP2]"
proof -
  have a: "domParser (nodeHost 0) = None"
    "toArrayBuffer (nodeHost 0) markupOneLineUtf8 = Some markupOneLineUtf8"
    "textDecode (nodeHost 0) markupOneLineUtf8 = Some markupOneLine"
    by (simp_all add: nodeHost_def utf8_markupOneLine)
  from encode_without_parser [OF a]
  have "map_option (map (map t_content \<circ> p_texts) \<circ> doc_pages) (encode (nodeHost 0) markupOneLineUtf8)
     = Some [[markupOneLine]]"
    by (auto simp: fallback_markupOneLine)
  then show ?thesis by simp
qed



section \<open>Sizes of at least 1\<close>

lemma max_one_at_least_one: "a \<noteq> NaN \<Longrightarrow> atLeastOne (Math_max (Fin 1) a)"
  by (cases a) (simp_all add: Math_max_def js_lt_def atLeastOne_def)

lemma max_one_NaN_or_at_least_one:
  "Math_max (Fin 1) a = NaN \<or> atLeastOne (Math_max (Fin 1) a)"
  by (cases a) (simp_all add: Math_max_def js_lt_def atLeastOne_def)

lemma round_not_NaN: "a \<noteq> NaN \<Longrightarrow> Math_round a \<noteq> NaN"
  by (cases a) (simp_all add: Math_round_def)

lemma mul_pos_not_NaN: "a \<noteq> NaN \<Longrightarrow> 0 < r \<Longrightarrow> js_mul (Fin r) a \<noteq> NaN \<and> js_mul a (Fin r) \<noteq> NaN"
  by (cases a) (simp_all add: js_mul_def js_sign_def)

lemma metrics_at_least_one:
  assumes "fs \<noteq> NaN" and "lh \<noteq> NaN" and "content \<noteq> []"
  shows "atLeastOne (m_width (estimateTextMetrics content fs lh))
         \<and> atLeastOne (m_height (estimateTextMetrics content fs lh))"
proof -
  from assms(3) have "(0::rat) < of_nat (length content)" by simp
  with assms(1) have "js_mul (Fin (of_nat (length content))) fs \<noteq> NaN"
    using mul_pos_not_NaN by blast
  then have "js_mul (js_mul (Fin (of_nat (length content))) fs) (Fin (6 / 10)) \<noteq> NaN"
    using mul_pos_not_NaN [of _ "6 / 10"] by simp
  then show ?thesis
    using assms(2) by (simp add: estimateTextMetrics_def max_one_at_least_one round_not_NaN)
qed

lemma fallbackLine_sizes:
  assumes "\<forall>t \<in> set (w_texts st). atLeastOne (t_width t) \<and> atLeastOne (t_height t)"
  shows "\<forall>t \<in> set (w_texts (fallbackLine docId st line)).
           atLeastOne (t_width t) \<and> atLeastOne (t_height t)"
proof (cases "trim line = []")
  case True
  with assms show ?thesis by (simp add: fallbackLine_def)
next
  case False
  have "fallbackFontSize \<noteq> NaN" and "fallbackLineHeight \<noteq> NaN"
    by (simp_all add: fallbackFontSize_def fallbackLineHeight_def js_mul_def Math_round_def)
  with False have "atLeastOne (m_width (estimateTextMetrics (trim line) fallbackFontSize fallbackLineHeight))
         \<and> atLeastOne (m_height (estimateTextMetrics (trim line) fallbackFontSize fallbackLineHeight))"
    by (intro metrics_at_least_one)
  with assms False show ?thesis by (simp add: fallbackLine_def Let_def)
qed

lemma fallback_fold_sizes:
  "\<forall>t \<in> set (w_texts st). atLeastOne (t_width t) \<and> atLeastOne (t_height t) \<Longrightarrow>
   \<forall>t \<in> set (w_texts (foldl (fallbackLine docId) st lines)).
      atLeastOne (t_width t) \<and> atLeastOne (t_height t)"
proof (induction lines arbitrary: st)
  case Nil
  then show ?case by simp
next
  case (Cons line lines)
  from Cons.prems have "\<forall>t \<in> set (w_texts (fallbackLine docId st line)).
           atLeastOne (t_width t) \<and> atLeastOne (t_height t)"
    by (rule fallbackLine_sizes)
  then show ?case by (simp add: Cons.IH)
qed

lemma fallback_sizes_at_least_one:
  "\<forall>t \<in> set (fst (fallbackPlainText html docId)). atLeastOne (t_width t) \<and> atLeastOne (t_height t)"
  using fallback_fold_sizes [of initialState docId "splitLines html"]
  by (simp add: fallbackPlainText_def initialState_def Let_def)

lemma emitText_sizes:
  assumes "sty_fontSize (collectAncestorInlineStyle anc defaultStyle) \<noteq> NaN"
    and "sty_lineHeight (collectAncestorInlineStyle anc defaultStyle) \<noteq> NaN"
    and "c \<noteq> []"
  shows "atLeastOne (t_width (last (w_texts (emitText docId anc c st))))
         \<and> atLeastOne (t_height (last (w_texts (emitText docId anc c st))))"
  using metrics_at_least_one [OF assms] by (simp add: emitText_def Let_def)

section \<open>Properties of the structural importer\<close>

lemma emitAll_Nil: "emitAll docId st [] = st"
  by (simp add: emitAll_def)

lemma emitAll_append: "emitAll docId st (xs @ ys) = emitAll docId (emitAll docId st xs) ys"
  by (simp add: emitAll_def)

lemma emitAll_single: "emitAll docId st [(c, anc)] = emitText docId anc c st"
  by (simp add: emitAll_def)

lemma scriptOrStyle_upper:
  "scriptOrStyle (js ''SCRIPT'')" "scriptOrStyle (js ''STYLE'')"
  by (simp_all add: scriptOrStyle_def toLowerCase_def lowerChar_def js_def)

lemma walk_is_emitAll:
  "upperSkipTags nd \<Longrightarrow>
     walk docId ancestors nd st = emitAll docId st (survivingTexts ancestors nd)"
  "upperSkipTagsAll nds \<Longrightarrow>
     walkChildren docId ancestors nds st = emitAll docId st (survivingTextsOf ancestors nds)"
proof (induction docId ancestors nd st and docId ancestors nds st rule: walk_walkChildren.induct)
  case (1 docId ancestors tagName styleAttr childNodes st)
  show ?case
  proof (cases "scriptOrStyle tagName")
    case True
    with "1.prems" have "tagName = js ''SCRIPT'' \<or> tagName = js ''STYLE''" by simp
    with True show ?thesis by (auto simp: emitAll_Nil)
  next
    case False
    then have n: "\<not> (tagName = js ''SCRIPT'' \<or> tagName = js ''STYLE'')"
      using scriptOrStyle_upper by auto
    from False "1.prems" have "upperSkipTagsAll childNodes" by simp
    with "1.IH" n False show ?thesis by simp
  qed
next
  case (2 docId ancestors raw st)
  show ?case by (simp add: emitAll_Nil emitAll_single Let_def)
next
  case (3 docId ancestors st)
  show ?case by (simp add: emitAll_Nil)
next
  case (4 docId ancestors st)
  show ?case by (simp add: emitAll_Nil)
next
  case (5 docId ancestors child rest st)
  then show ?case by (simp add: emitAll_append)
qed

lemma emitText_texts:
  "\<exists>t. w_texts (emitText docId anc c st) = w_texts st @ [t]
       \<and> t_id t = textId docId (w_idx st) \<and> t_content t = c \<and> t_x t = Fin 0 \<and> t_y t = w_y st
       \<and> t_height t = estimatedHeight (c, anc)
       \<and> \<not> t_vertical t \<and> t_rotate t = Fin 0 \<and> t_skew t = Fin 0 \<and> t_isEOL t
       \<and> w_idx (emitText docId anc c st) = Suc (w_idx st)
       \<and> w_y (emitText docId anc c st) = js_add (w_y st) (t_height t)"
  by (simp add: emitText_def estimatedHeight_def Let_def)

lemma sumFromZero_snoc: "sumFromZero (hs @ [h]) = js_add (sumFromZero hs) h"
  by (simp add: sumFromZero_def)

lemma stacked_emitText:
  assumes "stacked docId st"
  shows "stacked docId (emitText docId anc c st)"
proof -
  obtain t where t: "w_texts (emitText docId anc c st) = w_texts st @ [t]"
    "t_id t = textId docId (w_idx st)" "t_x t = Fin 0" "t_y t = w_y st"
    "\<not> t_vertical t" "t_rotate t = Fin 0" "t_skew t = Fin 0" "t_isEOL t"
    "w_idx (emitText docId anc c st) = Suc (w_idx st)"
    "w_y (emitText docId anc c st) = js_add (w_y st) (t_height t)"
    using emitText_texts [of docId anc c st] by blast
  from assms have idx: "w_idx st = length (w_texts st)"
    and y: "w_y st = sumFromZero (map t_height (w_texts st))"
    and old: "\<And>n. n < length (w_texts st) \<Longrightarrow>
           t_id (w_texts st ! n) = textId docId n
           \<and> t_x (w_texts st ! n) = Fin 0
           \<and> t_y (w_texts st ! n) = sumFromZero (map t_height (take n (w_texts st)))
           \<and> \<not> t_vertical (w_texts st ! n)
           \<and> t_rotate (w_texts st ! n) = Fin 0
           \<and> t_skew (w_texts st ! n) = Fin 0
           \<and> t_isEOL (w_texts st ! n)"
    by (simp_all add: stacked_def)
  let ?ts = "w_texts st @ [t]"
  have "\<forall>n < length ?ts.
           t_id (?ts ! n) = textId docId n
           \<and> t_x (?ts ! n) = Fin 0
           \<and> t_y (?ts ! n) = sumFromZero (map t_height (take n ?ts))
           \<and> \<not> t_vertical (?ts ! n)
           \<and> t_rotate (?ts ! n) = Fin 0
           \<and> t_skew (?ts ! n) = Fin 0
           \<and> t_isEOL (?ts ! n)"
  proof (intro allI impI)
    fix n assume n: "n < length ?ts"
    show "t_id (?ts ! n) = textId docId n
           \<and> t_x (?ts ! n) = Fin 0
           \<and> t_y (?ts ! n) = sumFromZero (map t_height (take n ?ts))
           \<and> \<not> t_vertical (?ts ! n)
           \<and> t_rotate (?ts ! n) = Fin 0
           \<and> t_skew (?ts ! n) = Fin 0
           \<and> t_isEOL (?ts ! n)"
    proof (cases "n < length (w_texts st)")
      case True
      with old [OF True] show ?thesis by (simp add: nth_append)
    next
      case False
      with n have "n = length (w_texts st)" by simp
      with t idx y show ?thesis by simp
    qed
  qed
  moreover have "w_idx (emitText docId anc c st) = length ?ts"
    using t idx by simp
  moreover have "w_y (emitText docId anc c st) = sumFromZero (map t_height ?ts)"
    using t y by (simp add: sumFromZero_snoc)
  ultimately show ?thesis
    unfolding stacked_def t(1) by blast
qed

lemma stacked_emitAll:
  "stacked docId st \<Longrightarrow> stacked docId (emitAll docId st nodes)"
proof (induction nodes arbitrary: st)
  case Nil
  then show ?case by (simp add: emitAll_Nil)
next
  case (Cons nd nodes)
  have "emitAll docId st (nd # nodes) = emitAll docId (emitText docId (snd nd) (fst nd) st) nodes"
    by (simp add: emitAll_def)
  with Cons show ?case by (simp add: stacked_emitText)
qed

lemma emitAll_Cons:
  "emitAll docId st (nd # nodes) = emitAll docId (emitText docId (snd nd) (fst nd) st) nodes"
  by (simp add: emitAll_def)

lemma emitAll_contents:
  "map t_content (w_texts (emitAll docId st nodes)) = map t_content (w_texts st) @ map fst nodes"
proof (induction nodes arbitrary: st)
  case Nil
  show ?case by (simp add: emitAll_Nil)
next
  case (Cons nd nodes)
  obtain t where t: "w_texts (emitText docId (snd nd) (fst nd) st) = w_texts st @ [t]"
    "t_content t = fst nd"
    using emitText_texts [of docId "snd nd" "fst nd" st] by blast
  show ?case by (simp add: emitAll_Cons Cons.IH t)
qed

lemma emitAll_heights:
  "map t_height (w_texts (emitAll docId st nodes))
     = map t_height (w_texts st) @ map estimatedHeight nodes"
proof (induction nodes arbitrary: st)
  case Nil
  show ?case by (simp add: emitAll_Nil)
next
  case (Cons nd nodes)
  obtain t where t: "w_texts (emitText docId (snd nd) (fst nd) st) = w_texts st @ [t]"
    "t_height t = estimatedHeight (fst nd, snd nd)"
    using emitText_texts [of docId "snd nd" "fst nd" st] by blast
  show ?case by (simp add: emitAll_Cons Cons.IH t)
qed

lemma stacked_initial: "stacked docId initialState"
  by (simp add: stacked_def initialState_def sumFromZero_def)

lemma pageHeightOf_as_max:
  "pageHeightOf texts =
     Math_max (Fin 1)
       (Math_round (foldl Math_max (Fin 0) (map (\<lambda>t. js_add (t_y t) (t_height t)) texts)))"
  by (simp add: pageHeightOf_def foldl_map)

lemma collectTexts_as_emitAll:
  assumes "parser html = Some doc" and "upperSkipTags (dom_body doc)"
  shows "collectTextsFromHtml parser html docId =
           Some \<lparr> r_title = (if dom_title doc = [] then js ''Untitled HTML'' else dom_title doc),
                  r_texts = w_texts (emitAll docId initialState
                                       (survivingTexts [dom_rootStyle doc] (dom_body doc))),
                  r_pageHeight = pageHeightOf (w_texts (emitAll docId initialState
                                       (survivingTexts [dom_rootStyle doc] (dom_body doc)))) \<rparr>"
  by (simp add: collectTextsFromHtml_def assms Let_def walk_is_emitAll)

text \<open>
  What holds of the importer on a document whose script and style elements have their
  tag names in upper case: one run for each surviving text node of the body, in
  depth-first order, with the node's collapsed content and estimated height; the run at
  position \<open>n\<close> has the id \<open><documentId>-page-1-text-<n>\<close>, x = 0, as y the sum from 0 of
  the heights of the runs before it, is not vertical, has no rotation and no skew, and
  ends its line; the page height is \<open>Math.max(1, Math.round(m))\<close>, where \<open>m\<close> is the
  maximum, from 0, of y + height over the runs, which is at least 1 or not a number.
\<close>

lemma structural_layout_upper_tags:
  assumes p: "parser html = Some doc" and u: "upperSkipTags (dom_body doc)"
  shows "\<exists>res. collectTextsFromHtml parser html docId = Some res
        \<and> map t_content (r_texts res) = map fst (survivingTexts [dom_rootStyle doc] (dom_body doc))
        \<and> map t_height (r_texts res)
            = map estimatedHeight (survivingTexts [dom_rootStyle doc] (dom_body doc))
        \<and> (\<forall>n < length (r_texts res).
              t_id (r_texts res ! n) = docId @ js ''-page-1-text-'' @ showNat n
              \<and> t_x (r_texts res ! n) = Fin 0
              \<and> t_y (r_texts res ! n) = sumFromZero (map t_height (take n (r_texts res)))
              \<and> \<not> t_vertical (r_texts res ! n)
              \<and> t_rotate (r_texts res ! n) = Fin 0
              \<and> t_skew (r_texts res ! n) = Fin 0
              \<and> t_isEOL (r_texts res ! n))
        \<and> r_pageHeight res =
            Math_max (Fin 1)
              (Math_round (foldl Math_max (Fin 0)
                             (map (\<lambda>t. js_add (t_y t) (t_height t)) (r_texts res))))
        \<and> (r_pageHeight res = NaN \<or> atLeastOne (r_pageHeight res))"
proof -
  let ?nodes = "survivingTexts [dom_rootStyle doc] (dom_body doc)"
  let ?st = "emitAll docId initialState ?nodes"
  let ?res = "\<lparr> r_title = (if dom_title doc = [] then js ''Untitled HTML'' else dom_title doc),
                 r_texts = w_texts ?st, r_pageHeight = pageHeightOf (w_texts ?st) \<rparr>"
  have r: "collectTextsFromHtml parser html docId = Some ?res"
    using p u by (rule collectTexts_as_emitAll)
  have c: "map t_content (r_texts ?res) = map fst ?nodes"
    by (simp add: emitAll_contents initialState_def)
  have h: "map t_height (r_texts ?res) = map estimatedHeight ?nodes"
    by (simp add: emitAll_heights initialState_def)
  have "stacked docId ?st"
    by (rule stacked_emitAll [OF stacked_initial])
  then have l: "\<forall>n < length (r_texts ?res).
              t_id (r_texts ?res ! n) = docId @ js ''-page-1-text-'' @ showNat n
              \<and> t_x (r_texts ?res ! n) = Fin 0
              \<and> t_y (r_texts ?res ! n) = sumFromZero (map t_height (take n (r_texts ?res)))
              \<and> \<not> t_vertical (r_texts ?res ! n)
              \<and> t_rotate (r_texts ?res ! n) = Fin 0
              \<and> t_skew (r_texts ?res ! n) = Fin 0
              \<and> t_isEOL (r_texts ?res ! n)"
    by (simp add: stacked_def textId_def)
  have g: "r_pageHeight ?res =
            Math_max (Fin 1)
              (Math_round (foldl Math_max (Fin 0)
                             (map (\<lambda>t. js_add (t_y t) (t_height t)) (r_texts ?res))))"
    by (simp add: pageHeightOf_as_max)
  have a: "r_pageHeight ?res = NaN \<or> atLeastOne (r_pageHeight ?res)"
    by (simp add: pageHeightOf_def max_one_NaN_or_at_least_one)
  from r c h l g a show ?thesis
    by (intro exI [of _ ?res] conjI)
qed

text \<open>
  C4, at two documents. At \<open><p style="font-size: abcpx">x</p>\<close> the page height is not a
  number, and so is not at least 1: the height of the run is not a number, and neither
  is the maximum of y + height. At \<open><svg><style>.a{fill:red}</style></svg><p>Hi</p>\<close>
  the importer emits two runs, the first with the text of the style element, where the
  only surviving text node is \<open>Hi\<close>: the test of the tag name knows the upper-case names
  only, and a style or script element of the SVG namespace has a lower-case one.
\<close>

theorem structural_import_defects:
  "map_option r_pageHeight (collectTextsFromHtml (constParser malformedDom) html docId) = Some NaN
   \<and> \<not> atLeastOne NaN
   \<and> map_option (map t_content \<circ> r_texts)
        (collectTextsFromHtml (constParser svgStyleDom) html docId)
       = Some [js ''.a{fill:red}'', js ''Hi'']
   \<and> map_option (map t_id \<circ> r_texts)
        (collectTextsFromHtml (constParser svgStyleDom) html (js ''d''))
       = Some [js ''d-page-1-text-0'', js ''d-page-1-text-1'']
   \<and> map fst (survivingTexts [dom_rootStyle svgStyleDom] (dom_body svgStyleDom)) = [js ''Hi'']"
  by code_simp

section \<open>Malformed pixel sizes\<close>

text \<open>
  C2, at \<open><p style="font-size: abcpx">x</p>\<close>. A value that ends in \<open>px\<close> is converted
  with no test of the result: \<open>abcpx\<close> gives not-a-number for the font size and for a
  line height, where the branch for \<open>em\<close> gives 1 and 1.2 and a bare \<open>abc\<close> as a line
  height is dropped. The run of the paragraph has a font size and a line height that are
  not numbers.
\<close>

theorem malformed_px_style_is_NaN:
  "parseFontSizeValue (Some (js ''abcpx'')) = Some NaN
   \<and> parseLineHeightValue (Some (js ''abcpx'')) = Some NaN
   \<and> parseFontSizeValue (Some (js ''abcem'')) = Some (Fin 1)
   \<and> parseLineHeightValue (Some (js ''abcem'')) = Some (Fin (12 / 10))
   \<and> parseLineHeightValue (Some (js ''abc'')) = None
   \<and> map_option (map t_fontSize \<circ> r_texts)
        (collectTextsFromHtml (constParser malformedDom) html docId) = Some [NaN]
   \<and> map_option (map t_lineHeight \<circ> r_texts)
        (collectTextsFromHtml (constParser malformedDom) html docId) = Some [NaN]"
  by code_simp

text \<open>
  C3, at the same document: the width and the height of the run are not numbers, since
  \<open>Math.max(1, NaN)\<close> is not a number; neither is at least 1.
\<close>

theorem malformed_px_run_size_is_NaN:
  "map_option (map t_width \<circ> r_texts)
        (collectTextsFromHtml (constParser malformedDom) html docId) = Some [NaN]
   \<and> map_option (map t_height \<circ> r_texts)
        (collectTextsFromHtml (constParser malformedDom) html docId) = Some [NaN]
   \<and> Math_max (Fin 1) NaN = NaN
   \<and> \<not> js_lt (Fin 0) NaN"
  by code_simp


end
